theory Spec2Isabelle
  imports Main "HOL-Library.AList"
begin

section \<open>Model-bound REST viewsets: \<^verbatim>\<open>freddie/viewsets/sql.py\<close>\<close>

text \<open>
  A shallow embedding of \<^verbatim>\<open>GenericModelViewSet\<close> and its CRUD subclasses.
  Python dictionaries are association lists in insertion order, looked up with
  \<open>map_of\<close>; Python sets are HOL sets; every \<^verbatim>\<open>raise\<close> and every failing
  \<^verbatim>\<open>assert\<close> is an \<open>Inl\<close> value; the storage layer, which lives outside the
  file, is a function from the history of issued operations to a reply.
\<close>

subsection \<open>Python values\<close>

datatype py_value =
    PyNone
  | PyBool bool
  | PyInt int
  | PyStr string
  | PyList "py_value list"

datatype py_type = NoneType | BoolT | IntT | StrT | ListT

text \<open>\<^verbatim>\<open>type(v)\<close>: the exact runtime class, so \<^verbatim>\<open>type(True)\<close> is not \<^verbatim>\<open>int\<close>.\<close>

fun type_of :: "py_value \<Rightarrow> py_type" where
  "type_of PyNone = NoneType"
| "type_of (PyBool _) = BoolT"
| "type_of (PyInt _) = IntT"
| "type_of (PyStr _) = StrT"
| "type_of (PyList _) = ListT"

text \<open>Truth value of an object, as \<^verbatim>\<open>if not pk\<close> tests it.\<close>

fun truthy :: "py_value \<Rightarrow> bool" where
  "truthy PyNone = False"
| "truthy (PyBool b) = b"
| "truthy (PyInt i) = (i \<noteq> 0)"
| "truthy (PyStr s) = (s \<noteq> [])"
| "truthy (PyList xs) = (xs \<noteq> [])"

subsection \<open>Strings\<close>

definition FK_FIELD_POSTFIX :: string where
  "FK_FIELD_POSTFIX = ''_id''"

definition M2M_FIELD_POSTFIX :: string where
  "M2M_FIELD_POSTFIX = ''_ids''"

text \<open>\<^verbatim>\<open>s.endswith(suffix)\<close>.\<close>

definition endswith :: "string \<Rightarrow> string \<Rightarrow> bool" where
  "endswith s suffix =
     (length suffix \<le> length s \<and> drop (length s - length suffix) s = suffix)"

text \<open>\<^verbatim>\<open>s[: -len(suffix)]\<close> for a non-empty suffix: the slice is clamped at 0.\<close>

definition strip_postfix :: "string \<Rightarrow> string \<Rightarrow> string" where
  "strip_postfix s suffix = take (length s - length suffix) s"

subsection \<open>Model metadata\<close>

type_synonym model_ref = string

text \<open>
  The class of a column descriptor: \<^verbatim>\<open>isinstance(f, CharField)\<close> and
  \<^verbatim>\<open>isinstance(f, ForeignKeyField)\<close> read it. A foreign key carries
  \<^verbatim>\<open>rel_model\<close>, a character column \<^verbatim>\<open>max_length\<close>.
\<close>

datatype field_class =
    PlainField
  | CharField int
  | ForeignKeyField model_ref

record db_field =
  name :: string
  field_class :: field_class
  unique :: bool

record m2m_field =
  m2m_name :: string
  m2m_rel_model :: model_ref

type_synonym FieldsMap = "(string \<times> db_field) list"
type_synonym PropsDependenciesMap = "(string \<times> db_field list) list"

record model_class =
  model_name :: model_ref
  model_pk_field :: db_field
  model_fields_decl :: FieldsMap
  manytomany :: "(string \<times> m2m_field) list"
  map_props_dependencies :: PropsDependenciesMap
  db_is_set :: bool
  manager_is_set :: bool

record schema_class =
  read_only_fields :: "string set"
  writable_fields :: "string set"
  field_max_length :: "(string \<times> int) list"
  default_response_fields_config :: "string list"

record viewset =
  model :: model_class
  schema :: schema_class
  pk_field :: db_field
  secondary_lookup_field :: "db_field option"
  pk_type_choices :: "py_type list"
  model_fields :: FieldsMap
  model_props_dependencies :: PropsDependenciesMap
  response_fields_full_config :: "string list"
  component_name :: string

subsection \<open>Queries\<close>

datatype JOIN = INNER | LEFT_OUTER | RIGHT_OUTER | FULL | FULL_OUTER | CROSS

text \<open>\<^verbatim>\<open>field == value\<close> on a column descriptor builds an expression.\<close>

datatype Expression = FieldEq db_field py_value

text \<open>
  What \<^verbatim>\<open>selected\<close> can hold: a column descriptor, a related model class, or
  \<^verbatim>\<open>None\<close> when \<^verbatim>\<open>dict.get\<close> found nothing.
\<close>

datatype selectable = SelNone | SelField db_field | SelModel model_ref

type_synonym ModelData = "(string \<times> py_value) list"

datatype query_kind =
    Select "selectable set"
  | Insert ModelData
  | Update ModelData
  | Delete

record Query =
  q_model :: model_ref
  q_kind :: query_kind
  q_joins :: "(model_ref \<times> model_ref \<times> JOIN) set"
  q_where :: "Expression list"
  q_limit :: "int option"
  q_offset :: "int option"

definition new_query :: "model_ref \<Rightarrow> query_kind \<Rightarrow> Query" where
  "new_query m k =
     \<lparr>q_model = m, q_kind = k, q_joins = {}, q_where = [], q_limit = None, q_offset = None\<rparr>"

definition join_from :: "Query \<Rightarrow> model_ref \<Rightarrow> model_ref \<Rightarrow> JOIN \<Rightarrow> Query" where
  "join_from q src dest how = q\<lparr>q_joins := insert (src, dest, how) (q_joins q)\<rparr>"

definition where_clause :: "Query \<Rightarrow> Expression list \<Rightarrow> Query" where
  "where_clause q es = q\<lparr>q_where := q_where q @ es\<rparr>"

subsection \<open>The query planner\<close>

text \<open>
  One turn of the loop of \<^verbatim>\<open>get_base_query\<close> over
  \<^verbatim>\<open>model_fields.items()\<close>, on the pair \<^verbatim>\<open>(selected, joined)\<close>.
\<close>

fun fk_rel_models :: "db_field list \<Rightarrow> model_ref list" where
  "fk_rel_models [] = []"
| "fk_rel_models (f # fs) =
     (case field_class f of
        ForeignKeyField m \<Rightarrow> m # fk_rel_models fs
      | _ \<Rightarrow> fk_rel_models fs)"

definition to_selectable :: "db_field option \<Rightarrow> selectable" where
  "to_selectable x = (case x of None \<Rightarrow> SelNone | Some f \<Rightarrow> SelField f)"

definition plan_field ::
  "viewset \<Rightarrow> string \<Rightarrow> selectable set \<times> model_ref set \<Rightarrow> selectable set \<times> model_ref set"
where
  "plan_field vs field_name acc =
     (case acc of (selected, joined) \<Rightarrow>
       (case map_of (model_fields vs) field_name of
          None \<Rightarrow>
            if endswith field_name FK_FIELD_POSTFIX then
              (insert (to_selectable
                 (map_of (model_fields vs) (strip_postfix field_name FK_FIELD_POSTFIX)))
                 selected, joined)
            else
              (let dependencies =
                     (case map_of (model_props_dependencies vs) field_name of
                        None \<Rightarrow> [] | Some ds \<Rightarrow> ds)
               in (selected \<union> SelField ` set dependencies
                     \<union> SelModel ` set (fk_rel_models dependencies),
                   joined \<union> set (fk_rel_models dependencies)))
        | Some db_field \<Rightarrow>
            (case field_class db_field of
               ForeignKeyField rel_model \<Rightarrow>
                 (insert (SelModel rel_model) selected, insert rel_model joined)
             | _ \<Rightarrow> (insert (SelField db_field) selected, joined))))"

definition plan_fields :: "viewset \<Rightarrow> string list \<Rightarrow> selectable set \<times> model_ref set" where
  "plan_fields vs field_names = fold (plan_field vs) field_names ({}, {})"

text \<open>
  \<^verbatim>\<open>get_base_query\<close>. The closing loop calls \<^verbatim>\<open>join_from\<close> once for each
  element of the set \<^verbatim>\<open>joined\<close>, in no fixed order; the joins of a query are kept
  as a set, and \<open>get_base_query_join_loop\<close> below shows that the loop, run over any
  enumeration of \<^verbatim>\<open>joined\<close>, gives this query.
\<close>

definition get_base_query :: "viewset \<Rightarrow> string list \<Rightarrow> Query" where
  "get_base_query vs field_names =
     (case plan_fields vs field_names of (selected, joined) \<Rightarrow>
        (new_query (model_name (model vs))
           (Select (if selected = {} then {SelField (pk_field vs)} else selected)))
        \<lparr>q_joins := (\<lambda>joined_model. (model_name (model vs), joined_model, LEFT_OUTER)) ` joined\<rparr>)"

subsection \<open>The prefetch plan\<close>

record Prefetch =
  pf_field :: m2m_field
  attr_name :: string
  ids_only :: bool

fun build_prefetch_config :: "viewset \<Rightarrow> string list \<Rightarrow> Prefetch list" where
  "build_prefetch_config vs [] = []"
| "build_prefetch_config vs (field_name # field_names) =
     (let ids = endswith field_name M2M_FIELD_POSTFIX;
          stripped = (if ids then strip_postfix field_name M2M_FIELD_POSTFIX else field_name)
      in case map_of (manytomany (model vs)) stripped of
           None \<Rightarrow> build_prefetch_config vs field_names
         | Some field \<Rightarrow>
             \<lparr>pf_field = field, attr_name = field_name, ids_only = ids\<rparr>
               # build_prefetch_config vs field_names)"

subsection \<open>Errors\<close>

datatype db_exception = DoesNotExist | DatabaseError string

datatype error =
    AssertionError string
  | AttributeError
  | IndexError
  | TypeError
  | NotFound string
  | Unprocessable string
  | ServerError string
  | Uncaught db_exception

subsection \<open>Lookup and filters\<close>

text \<open>
  \<^verbatim>\<open>lookup_expr\<close>. The conjunction short-circuits, so
  \<^verbatim>\<open>_pk_type_choices[0]\<close> is read only when a secondary field is set; on an
  empty tuple that read raises.
\<close>

definition lookup_expr :: "viewset \<Rightarrow> py_value \<Rightarrow> error + Expression" where
  "lookup_expr vs pk =
     (case secondary_lookup_field vs of
        None \<Rightarrow> Inr (FieldEq (pk_field vs) pk)
      | Some secondary \<Rightarrow>
          (case pk_type_choices vs of
             [] \<Rightarrow> Inl IndexError
           | t # _ \<Rightarrow>
               if type_of pk \<noteq> t then Inr (FieldEq secondary pk)
               else Inr (FieldEq (pk_field vs) pk)))"

type_synonym FilterBy = "(string \<times> py_value) list"

fun get_query_filters_items :: "viewset \<Rightarrow> FilterBy \<Rightarrow> Expression list" where
  "get_query_filters_items vs [] = []"
| "get_query_filters_items vs ((field_name, v) # items) =
     (case map_of (model_fields vs) field_name of
        None \<Rightarrow> get_query_filters_items vs items
      | Some model_field \<Rightarrow> FieldEq model_field v # get_query_filters_items vs items)"

definition get_query_filters :: "viewset \<Rightarrow> FilterBy option \<Rightarrow> Expression list" where
  "get_query_filters vs request_filter_params =
     (case request_filter_params of
        None \<Rightarrow> []
      | Some params \<Rightarrow> get_query_filters_items vs params)"

definition apply_query_filters :: "viewset \<Rightarrow> Query \<Rightarrow> FilterBy option \<Rightarrow> Query" where
  "apply_query_filters vs query request_filter_params =
     (let filter_expressions = get_query_filters vs request_filter_params
      in if filter_expressions \<noteq> [] then where_clause query filter_expressions else query)"

subsection \<open>Construction\<close>

text \<open>
  What \<^verbatim>\<open>__init__\<close> can be handed as \<^verbatim>\<open>model\<close>: an object that is not a
  class, a class outside the \<^verbatim>\<open>Model\<close> hierarchy, or a model class.
\<close>

datatype model_arg =
    Instance py_value
  | OtherClass string
  | ModelSubclass model_class

text \<open>
  The attributes a viewset class declares, and those the base initialiser
  (\<^verbatim>\<open>GenericViewSet.__init__\<close>, outside the file) leaves on the instance.
\<close>

record viewset_class =
  class_name :: string
  cls_model :: model_arg
  cls_schema :: schema_class
  cls_schema_name :: string
  cls_secondary_lookup_field :: "db_field option"
  cls_pk_type_choices :: "py_type list"
  cls_response_fields_full_config :: "string list"
  cls_component_name :: string

fun dunder_name :: "model_arg \<Rightarrow> string option" where
  "dunder_name (Instance _) = None"
| "dunder_name (OtherClass n) = Some n"
| "dunder_name (ModelSubclass m) = Some (model_name m)"

text \<open>\<^verbatim>\<open>model or self.model\<close>.\<close>

definition model_or_default :: "model_arg \<Rightarrow> model_arg \<Rightarrow> model_arg" where
  "model_or_default m dflt = (case m of Instance v \<Rightarrow> if truthy v then m else dflt | _ \<Rightarrow> m)"

text \<open>
  \<^verbatim>\<open>validate_model\<close>, with assertions enabled. The third message formats
  \<^verbatim>\<open>self.model.__name__\<close>, the class attribute, not the argument.
\<close>

definition validate_model :: "viewset_class \<Rightarrow> model_arg \<Rightarrow> error + model_class" where
  "validate_model self m =
     (case m of
        Instance _ \<Rightarrow> Inl (AssertionError (''Schema for '' @ class_name self @ '' must be a class''))
      | OtherClass _ \<Rightarrow>
          Inl (AssertionError
                 (''Schema for '' @ class_name self @ '' must be subclassed from Model''))
      | ModelSubclass mc \<Rightarrow>
          if \<not> db_is_set mc then
            (case dunder_name (cls_model self) of
               None \<Rightarrow> Inl AttributeError
             | Some n \<Rightarrow> Inl (AssertionError (n @ '' model database not set'')))
          else if \<not> manager_is_set mc then
            Inl (AssertionError (model_name mc @ '' model database manager not set''))
          else
            (case cls_secondary_lookup_field self of
               None \<Rightarrow> Inr mc
             | Some secondary \<Rightarrow>
                 if \<not> length (cls_pk_type_choices self) > 1 then
                   Inl (AssertionError ''Secondary lookup field type must be set'')
                 else if \<not> unique secondary then
                   Inl (AssertionError ''Non unique secondary lookup field'')
                 else Inr mc))"

text \<open>
  \<^verbatim>\<open>get_validated_model_fields\<close>: the loop over \<^verbatim>\<open>model.fields().items()\<close>
  with the dictionary \<^verbatim>\<open>fields\<close> built so far.
\<close>

fun validated_fields_loop ::
  "viewset_class \<Rightarrow> FieldsMap \<Rightarrow> FieldsMap \<Rightarrow> error + FieldsMap"
where
  "validated_fields_loop self [] acc = Inr acc"
| "validated_fields_loop self ((field_name, db_field) # items) acc =
     (case field_class db_field of
        CharField max_length \<Rightarrow>
          if field_name \<in> writable_fields (cls_schema self) then
            (case map_of (field_max_length (cls_schema self)) field_name of
               None \<Rightarrow>
                 Inl (AssertionError (cls_schema_name self @ ''.'' @ field_name
                        @ '' maxlength not set or greater than DB field maxlength''))
             | Some schema_max_length \<Rightarrow>
                 if schema_max_length = 0 \<or> schema_max_length > max_length then
                   Inl (AssertionError (cls_schema_name self @ ''.'' @ field_name
                          @ '' maxlength not set or greater than DB field maxlength''))
                 else validated_fields_loop self items (AList.update field_name db_field acc))
          else validated_fields_loop self items (AList.update field_name db_field acc)
      | _ \<Rightarrow> validated_fields_loop self items (AList.update field_name db_field acc))"

definition get_validated_model_fields :: "viewset_class \<Rightarrow> model_class \<Rightarrow> error + FieldsMap" where
  "get_validated_model_fields self mc = validated_fields_loop self (model_fields_decl mc) []"

text \<open>
  \<^verbatim>\<open>__init__\<close> after the base initialiser has returned. The two closing
  statements (ORM mode of the schema, the SQL logger) touch nothing that is read below
  and are left out.
\<close>

definition init :: "viewset_class \<Rightarrow> model_arg \<Rightarrow> error + viewset" where
  "init self m =
     (case validate_model self (model_or_default m (cls_model self)) of
        Inl e \<Rightarrow> Inl e
      | Inr mc \<Rightarrow>
          (case get_validated_model_fields self mc of
             Inl e \<Rightarrow> Inl e
           | Inr fs \<Rightarrow>
               Inr \<lparr>model = mc, schema = cls_schema self, pk_field = model_pk_field mc,
                    secondary_lookup_field = cls_secondary_lookup_field self,
                    pk_type_choices = cls_pk_type_choices self,
                    model_fields = fs,
                    model_props_dependencies = map_props_dependencies mc,
                    response_fields_full_config = cls_response_fields_full_config self,
                    component_name = cls_component_name self\<rparr>))"

subsection \<open>The storage layer\<close>

text \<open>
  The connection manager and the relation helpers are outside the file. An operation
  handed to them is recorded, in order, in a history; what they answer is a function of
  the history so far and of the operation, so any deterministic store fits.
\<close>

record model_obj =
  obj_pk :: py_value
  obj_attrs :: "(string \<times> py_value) list"

datatype db_op =
    Execute Query
  | Get Query
  | SetRelated py_value m2m_field "py_value set"
  | GetRelated py_value "Prefetch list"

type_synonym history = "db_op list"

text \<open>
  \<^verbatim>\<open>db_errors_handler\<close> is the error a storage exception leaves the
  \<^verbatim>\<open>with db_errors_handler()\<close> block as; \<^verbatim>\<open>is_iterable\<close> is the helper of
  that name.
\<close>

record env =
  manager_execute :: "history \<Rightarrow> Query \<Rightarrow> db_exception + py_value"
  manager_get :: "history \<Rightarrow> Query \<Rightarrow> db_exception + model_obj"
  set_related :: "history \<Rightarrow> py_value \<Rightarrow> m2m_field \<Rightarrow> py_value set \<Rightarrow> db_exception + unit"
  get_related ::
    "history \<Rightarrow> py_value \<Rightarrow> Prefetch list \<Rightarrow> db_exception + (string \<times> py_value) list"
  db_errors_handler :: "db_exception \<Rightarrow> error"
  is_iterable :: "py_value \<Rightarrow> bool"

subsection \<open>Decoding a request body\<close>

text \<open>
  A validated body: its fields by output key, each with its value and whether the
  client set it. \<^verbatim>\<open>body.dict(exclude=..., exclude_unset=..., exclude_none=True)\<close>
  keeps the fields outside \<^verbatim>\<open>exclude\<close> that are set (when asked) and not
  \<^verbatim>\<open>None\<close>.
\<close>

type_synonym Schema = "(string \<times> py_value \<times> bool) list"

definition body_dict :: "Schema \<Rightarrow> string set \<Rightarrow> bool \<Rightarrow> ModelData" where
  "body_dict body exclude exclude_unset =
     map (\<lambda>(k, v, was_set). (k, v))
       (filter (\<lambda>(k, v, was_set). k \<notin> exclude \<and> (if exclude_unset then was_set else True) \<and> v \<noteq> PyNone)
          body)"

text \<open>
  \<^verbatim>\<open>set(value)\<close>: the elements of an iterable, which must be hashable. A set
  holds one of any two elements that compare equal, the one added first, and
  \<^verbatim>\<open>True == 1\<close> and \<^verbatim>\<open>False == 0\<close> hold, so
  \<^verbatim>\<open>set([1, True, 0, False])\<close> is \<^verbatim>\<open>{0, 1}\<close>.
\<close>

fun hashable :: "py_value \<Rightarrow> bool" where
  "hashable (PyList _) = False"
| "hashable _ = True"

text \<open>The number a value stands for under \<^verbatim>\<open>==\<close>, if it is one.\<close>

fun py_number :: "py_value \<Rightarrow> int option" where
  "py_number (PyInt i) = Some i"
| "py_number (PyBool b) = Some (if b then 1 else 0)"
| "py_number _ = None"

text \<open>\<^verbatim>\<open>a == b\<close> on hashable values.\<close>

definition py_eq :: "py_value \<Rightarrow> py_value \<Rightarrow> bool" where
  "py_eq a b =
     (case py_number a of
        Some i \<Rightarrow> (case py_number b of Some j \<Rightarrow> i = j | None \<Rightarrow> False)
      | None \<Rightarrow> (case py_number b of Some j \<Rightarrow> False | None \<Rightarrow> a = b))"

text \<open>\<^verbatim>\<open>s.add(x)\<close>: nothing changes when an equal element is there already.\<close>

definition set_add :: "py_value \<Rightarrow> py_value set \<Rightarrow> py_value set" where
  "set_add x s = (if \<exists>y \<in> s. py_eq x y then s else insert x s)"

fun py_set :: "py_value \<Rightarrow> error + py_value set" where
  "py_set (PyList xs) = (if list_all hashable xs then Inr (fold set_add xs {}) else Inl TypeError)"
| "py_set (PyStr s) = Inr (fold set_add (map (\<lambda>c. PyStr [c]) s) {})"
| "py_set _ = Inl TypeError"

type_synonym ModelRelations = "(m2m_field \<times> py_value set) list"

fun serialize_items ::
  "env \<Rightarrow> viewset \<Rightarrow> ModelData \<Rightarrow> ModelData \<times> ModelRelations \<Rightarrow> error + ModelData \<times> ModelRelations"
where
  "serialize_items e vs [] acc = Inr acc"
| "serialize_items e vs ((key, v) # items) (data, related) =
     (if map_of (model_fields vs) key = None then
        (if endswith key FK_FIELD_POSTFIX then
           (let field_name = strip_postfix key FK_FIELD_POSTFIX
            in if map_of (model_fields vs) field_name \<noteq> None
               then serialize_items e vs items (AList.update field_name v data, related)
               else serialize_items e vs items (data, related))
         else if endswith key M2M_FIELD_POSTFIX \<and> is_iterable e v then
           (let field_name = strip_postfix key M2M_FIELD_POSTFIX
            in case map_of (manytomany (model vs)) field_name of
                 None \<Rightarrow> serialize_items e vs items (data, related)
               | Some field \<Rightarrow>
                   (case py_set v of
                      Inl err \<Rightarrow> Inl err
                    | Inr ids \<Rightarrow> serialize_items e vs items (data, related @ [(field, ids)])))
         else serialize_items e vs items (data, related))
      else serialize_items e vs items (AList.update key v data, related))"

definition serialize_request_body_for_db ::
  "env \<Rightarrow> viewset \<Rightarrow> Schema \<Rightarrow> bool \<Rightarrow> error + ModelData \<times> ModelRelations"
where
  "serialize_request_body_for_db e vs body on_create =
     (let excluded_keys = read_only_fields (schema vs) \<union> {name (pk_field vs)};
          serialized = body_dict body excluded_keys (\<not> on_create)
      in serialize_items e vs serialized ([], []))"

subsection \<open>Retrieve\<close>

text \<open>\<^verbatim>\<open>str.title()\<close> on ASCII letters.\<close>

definition is_lower :: "char \<Rightarrow> bool" where
  "is_lower c = (97 \<le> (of_char c :: nat) \<and> (of_char c :: nat) \<le> 122)"

definition is_upper :: "char \<Rightarrow> bool" where
  "is_upper c = (65 \<le> (of_char c :: nat) \<and> (of_char c :: nat) \<le> 90)"

definition to_upper :: "char \<Rightarrow> char" where
  "to_upper c = (if is_lower c then char_of ((of_char c :: nat) - 32) else c)"

definition to_lower :: "char \<Rightarrow> char" where
  "to_lower c = (if is_upper c then char_of ((of_char c :: nat) + 32) else c)"

fun title_from :: "bool \<Rightarrow> string \<Rightarrow> string" where
  "title_from prev_cased [] = []"
| "title_from prev_cased (c # cs) =
     (if is_lower c \<or> is_upper c
      then (if prev_cased then to_lower c else to_upper c) # title_from True cs
      else c # title_from False cs)"

definition title :: "string \<Rightarrow> string" where
  "title s = title_from False s"

text \<open>\<^verbatim>\<open>setattr(obj, attr_name, items)\<close> for every entry of \<^verbatim>\<open>related\<close>.\<close>

fun set_attrs :: "(string \<times> py_value) list \<Rightarrow> model_obj \<Rightarrow> model_obj" where
  "set_attrs [] obj = obj"
| "set_attrs ((attr, items) # rest) obj =
     set_attrs rest (obj\<lparr>obj_attrs := AList.update attr items (obj_attrs obj)\<rparr>)"

text \<open>\<^verbatim>\<open>fields or {}\<close>.\<close>

definition fields_or_empty :: "string list option \<Rightarrow> string list" where
  "fields_or_empty fs = (case fs of None \<Rightarrow> [] | Some xs \<Rightarrow> xs)"

definition get_object_or_404 ::
  "env \<Rightarrow> viewset \<Rightarrow> py_value \<Rightarrow> string list option \<Rightarrow> history \<Rightarrow> (error + model_obj) \<times> history"
where
  "get_object_or_404 e vs pk fs h =
     (case lookup_expr vs pk of
        Inl err \<Rightarrow> (Inl err, h)
      | Inr expr \<Rightarrow>
          (let query = where_clause
                 (apply_query_filters vs (get_base_query vs (fields_or_empty fs)) None) [expr];
               h1 = h @ [Get query]
           in case manager_get e h query of
                Inl DoesNotExist \<Rightarrow> (Inl (NotFound (title (component_name vs) @ '' not found'')), h1)
              | Inl exn \<Rightarrow> (Inl (Uncaught exn), h1)
              | Inr obj \<Rightarrow>
                  (let related_config = build_prefetch_config vs (fields_or_empty fs)
                   in if related_config \<noteq> [] then
                        (case get_related e h1 (obj_pk obj) related_config of
                           Inl exn \<Rightarrow>
                             (Inl (Uncaught exn), h1 @ [GetRelated (obj_pk obj) related_config])
                         | Inr related \<Rightarrow>
                             (Inr (set_attrs related obj),
                              h1 @ [GetRelated (obj_pk obj) related_config]))
                      else (Inr obj, h1))))"

subsection \<open>Create\<close>

definition perform_create ::
  "env \<Rightarrow> viewset \<Rightarrow> ModelData \<Rightarrow> history \<Rightarrow> (db_exception + py_value) \<times> history"
where
  "perform_create e vs data h =
     (let query = new_query (model_name (model vs)) (Insert data)
      in (manager_execute e h query, h @ [Execute query]))"

text \<open>
  The loop of \<^verbatim>\<open>create\<close> over \<^verbatim>\<open>related\<close>: an empty set of ids is skipped.
  The result is the exception that ended the loop, if one did.
\<close>

fun create_related ::
  "env \<Rightarrow> py_value \<Rightarrow> ModelRelations \<Rightarrow> history \<Rightarrow> db_exception option \<times> history"
where
  "create_related e pk [] h = (None, h)"
| "create_related e pk ((field, ids) # related) h =
     (if ids = {} then create_related e pk related h
      else (case set_related e h pk field ids of
              Inl exn \<Rightarrow> (Some exn, h @ [SetRelated pk field ids])
            | Inr _ \<Rightarrow> create_related e pk related (h @ [SetRelated pk field ids])))"

definition create ::
  "env \<Rightarrow> viewset \<Rightarrow> Schema \<Rightarrow> history \<Rightarrow> (error + py_value) \<times> history"
where
  "create e vs body h =
     (case serialize_request_body_for_db e vs body True of
        Inl err \<Rightarrow> (Inl err, h)
      | Inr (data, related) \<Rightarrow>
          if data = [] then (Inl (Unprocessable ''Empty request body''), h)
          else
            (case perform_create e vs data h of
               (Inl exn, h1) \<Rightarrow> (Inl (db_errors_handler e exn), h1)
             | (Inr pk, h1) \<Rightarrow>
                 if \<not> truthy pk then
                   (Inl (ServerError (title (component_name vs) @ '' not created'')), h1)
                 else
                   (case create_related e pk related h1 of
                      (Some exn, h2) \<Rightarrow> (Inl (db_errors_handler e exn), h2)
                    | (None, h2) \<Rightarrow> (Inr pk, h2))))"

subsection \<open>Update\<close>

text \<open>
  \<^verbatim>\<open>perform_update\<close> runs inside \<^verbatim>\<open>with db_errors_handler()\<close>: an exception
  of the store leaves the block through the handler, an error of \<^verbatim>\<open>lookup_expr\<close>
  is taken to pass it unchanged.
\<close>

definition perform_update ::
  "env \<Rightarrow> viewset \<Rightarrow> py_value \<Rightarrow> ModelData \<Rightarrow> history \<Rightarrow> (error + db_exception + py_value) \<times> history"
where
  "perform_update e vs pk data h =
     (case lookup_expr vs pk of
        Inl err \<Rightarrow> (Inl err, h)
      | Inr expr \<Rightarrow>
          (let query = where_clause
                 (apply_query_filters vs (new_query (model_name (model vs)) (Update data)) None)
                 [expr]
           in (Inr (manager_execute e h query), h @ [Execute query])))"

text \<open>The loop of \<^verbatim>\<open>update\<close> over \<^verbatim>\<open>related\<close>: every pair is written.\<close>

fun update_related ::
  "env \<Rightarrow> py_value \<Rightarrow> ModelRelations \<Rightarrow> history \<Rightarrow> db_exception option \<times> history"
where
  "update_related e pk [] h = (None, h)"
| "update_related e pk ((field, ids) # related) h =
     (case set_related e h pk field ids of
        Inl exn \<Rightarrow> (Some exn, h @ [SetRelated pk field ids])
      | Inr _ \<Rightarrow> update_related e pk related (h @ [SetRelated pk field ids]))"

text \<open>The close of \<^verbatim>\<open>update\<close>, shared by its two branches: the loop, then \<^verbatim>\<open>return pk\<close>.\<close>

definition update_tail ::
  "env \<Rightarrow> py_value \<Rightarrow> ModelRelations \<Rightarrow> history \<Rightarrow> (error + py_value) \<times> history"
where
  "update_tail e pk related h =
     (case update_related e pk related h of
        (Some exn, h2) \<Rightarrow> (Inl (db_errors_handler e exn), h2)
      | (None, h2) \<Rightarrow> (Inr pk, h2))"

definition update ::
  "env \<Rightarrow> viewset \<Rightarrow> py_value \<Rightarrow> Schema \<Rightarrow> history \<Rightarrow> (error + py_value) \<times> history"
where
  "update e vs pk body h =
     (case serialize_request_body_for_db e vs body False of
        Inl err \<Rightarrow> (Inl err, h)
      | Inr (data, related) \<Rightarrow>
          if data \<noteq> [] then
            (case perform_update e vs pk data h of
               (Inl err, h1) \<Rightarrow> (Inl err, h1)
             | (Inr (Inl exn), h1) \<Rightarrow> (Inl (db_errors_handler e exn), h1)
             | (Inr (Inr updated), h1) \<Rightarrow>
                 if \<not> truthy updated then
                   (Inl (ServerError (title (component_name vs) @ '' not updated'')), h1)
                 else update_tail e pk related h1)
          else update_tail e pk related h)"

text \<open>
  Modelled from the spec: the inherited \<^verbatim>\<open>perform_api_action\<close> of
  \<^verbatim>\<open>GenericViewSet\<close> is missing from the sources; it is taken to call the handler
  and return what the handler returns. The two overrides below, for the handlers
  \<^verbatim>\<open>create\<close> and \<^verbatim>\<open>update\<close>, are the file's own.
\<close>

definition perform_api_action_create ::
  "env \<Rightarrow> viewset \<Rightarrow> Schema \<Rightarrow> history \<Rightarrow> (error + model_obj) \<times> history"
where
  "perform_api_action_create e vs body h =
     (case create e vs body h of
        (Inl err, h1) \<Rightarrow> (Inl err, h1)
      | (Inr pk, h1) \<Rightarrow>
          get_object_or_404 e vs pk (Some (response_fields_full_config vs)) h1)"

definition perform_api_action_update ::
  "env \<Rightarrow> viewset \<Rightarrow> py_value \<Rightarrow> Schema \<Rightarrow> history \<Rightarrow> (error + model_obj) \<times> history"
where
  "perform_api_action_update e vs pk body h =
     (case update e vs pk body h of
        (Inl err, h1) \<Rightarrow> (Inl err, h1)
      | (Inr pk', h1) \<Rightarrow>
          get_object_or_404 e vs pk' (Some (response_fields_full_config vs)) h1)"

subsection \<open>Reading a query and a history\<close>

definition selection :: "Query \<Rightarrow> selectable set" where
  "selection q = (case q_kind q of Select cols \<Rightarrow> cols | _ \<Rightarrow> {})"

text \<open>
  What one requested name adds to \<^verbatim>\<open>selected\<close> and to \<^verbatim>\<open>joined\<close>; the
  loop body is shown below to add exactly these.
\<close>

definition dependencies_of :: "viewset \<Rightarrow> string \<Rightarrow> db_field list" where
  "dependencies_of vs field_name =
     (case map_of (model_props_dependencies vs) field_name of None \<Rightarrow> [] | Some ds \<Rightarrow> ds)"

definition field_selected :: "viewset \<Rightarrow> string \<Rightarrow> selectable set" where
  "field_selected vs field_name = fst (plan_field vs field_name ({}, {}))"

definition field_joined :: "viewset \<Rightarrow> string \<Rightarrow> model_ref set" where
  "field_joined vs field_name = snd (plan_field vs field_name ({}, {}))"

definition is_fk_to :: "db_field \<Rightarrow> model_ref \<Rightarrow> bool" where
  "is_fk_to f rel = (field_class f = ForeignKeyField rel)"

text \<open>A requested name that nothing in the model answers to.\<close>

definition unknown_name :: "viewset \<Rightarrow> string \<Rightarrow> bool" where
  "unknown_name vs n =
     (map_of (model_fields vs) n = None
      \<and> \<not> (endswith n FK_FIELD_POSTFIX
           \<and> map_of (model_fields vs) (strip_postfix n FK_FIELD_POSTFIX) \<noteq> None)
      \<and> \<not> (endswith n M2M_FIELD_POSTFIX
           \<and> map_of (manytomany (model vs)) (strip_postfix n M2M_FIELD_POSTFIX) \<noteq> None)
      \<and> map_of (manytomany (model vs)) n = None
      \<and> map_of (model_props_dependencies vs) n = None)"

text \<open>The errors that construction can end in.\<close>

definition is_configuration_error :: "error \<Rightarrow> bool" where
  "is_configuration_error err =
     (case err of AssertionError _ \<Rightarrow> True | AttributeError \<Rightarrow> True | _ \<Rightarrow> False)"

text \<open>The name \<^verbatim>\<open>build_prefetch_config\<close> looks up: the requested one less the suffix.\<close>

definition m2m_stripped :: "string \<Rightarrow> string" where
  "m2m_stripped n = (if endswith n M2M_FIELD_POSTFIX then strip_postfix n M2M_FIELD_POSTFIX else n)"

definition set_related_op :: "py_value \<Rightarrow> m2m_field \<times> py_value set \<Rightarrow> db_op" where
  "set_related_op pk p = SetRelated pk (fst p) (snd p)"

definition is_execute :: "db_op \<Rightarrow> bool" where
  "is_execute op = (case op of Execute _ \<Rightarrow> True | _ \<Rightarrow> False)"

subsection \<open>A sample model\<close>

definition id_field :: db_field where
  "id_field = \<lparr>name = ''id'', field_class = PlainField, unique = True\<rparr>"

definition name_field :: db_field where
  "name_field = \<lparr>name = ''name'', field_class = CharField 100, unique = False\<rparr>"

definition category_field :: db_field where
  "category_field =
     \<lparr>name = ''category'', field_class = ForeignKeyField ''Category'', unique = False\<rparr>"

definition slug_field :: db_field where
  "slug_field = \<lparr>name = ''slug'', field_class = CharField 50, unique = True\<rparr>"

definition tags_field :: m2m_field where
  "tags_field = \<lparr>m2m_name = ''tags'', m2m_rel_model = ''Tag''\<rparr>"

definition item_model :: model_class where
  "item_model =
     \<lparr>model_name = ''Item'', model_pk_field = id_field,
      model_fields_decl =
        [(''id'', id_field), (''name'', name_field), (''category'', category_field)],
      manytomany = [(''tags'', tags_field)],
      map_props_dependencies = [(''display_name'', [name_field])],
      db_is_set = True, manager_is_set = True\<rparr>"

definition item_schema :: schema_class where
  "item_schema =
     \<lparr>read_only_fields = {''display_name''}, writable_fields = {''name'', ''category_id'', ''tags_ids''},
      field_max_length = [(''name'', 80)],
      default_response_fields_config = [''id'', ''name'']\<rparr>"

definition item_viewset_class :: viewset_class where
  "item_viewset_class =
     \<lparr>class_name = ''ItemViewSet'', cls_model = ModelSubclass item_model,
      cls_schema = item_schema, cls_schema_name = ''ItemSchema'',
      cls_secondary_lookup_field = None, cls_pk_type_choices = [IntT],
      cls_response_fields_full_config = [''id'', ''name'', ''display_name'', ''category_id'', ''tags_ids''],
      cls_component_name = ''item''\<rparr>"

definition item_viewset :: viewset where
  "item_viewset =
     \<lparr>model = item_model, schema = item_schema, pk_field = id_field,
      secondary_lookup_field = None, pk_type_choices = [IntT],
      model_fields = [(''id'', id_field), (''name'', name_field), (''category'', category_field)],
      model_props_dependencies = [(''display_name'', [name_field])],
      response_fields_full_config = [''id'', ''name'', ''display_name'', ''category_id'', ''tags_ids''],
      component_name = ''item''\<rparr>"

text \<open>The same handler with a slug as secondary lookup field.\<close>

definition slug_viewset_class :: viewset_class where
  "slug_viewset_class =
     item_viewset_class\<lparr>cls_secondary_lookup_field := Some slug_field,
                         cls_pk_type_choices := [IntT, StrT]\<rparr>"

definition slug_viewset :: viewset where
  "slug_viewset =
     item_viewset\<lparr>secondary_lookup_field := Some slug_field, pk_type_choices := [IntT, StrT]\<rparr>"

text \<open>A handler whose property \<^verbatim>\<open>label\<close> depends on a foreign key.\<close>

definition labelled_viewset :: viewset where
  "labelled_viewset =
     item_viewset\<lparr>model_props_dependencies := [(''label'', [name_field, category_field])]\<rparr>"

text \<open>
  A handler with a computed property whose name ends in the foreign-key suffix:
  \<^verbatim>\<open>external_id\<close> depends on the column \<^verbatim>\<open>name\<close>, and the model has no
  column \<^verbatim>\<open>external\<close>.
\<close>

definition external_viewset :: viewset where
  "external_viewset =
     item_viewset\<lparr>model_props_dependencies := [(''external_id'', [name_field])]\<rparr>"

text \<open>A model whose many-to-many relation is itself named with the suffix.\<close>

definition tag_ids_field :: m2m_field where
  "tag_ids_field = \<lparr>m2m_name = ''tag_ids'', m2m_rel_model = ''Tag''\<rparr>"

definition suffixed_viewset :: viewset where
  "suffixed_viewset =
     item_viewset\<lparr>model := item_model\<lparr>manytomany := [(''tag_ids'', tag_ids_field)]\<rparr>\<rparr>"

text \<open>A store that accepts every write and finds one row.\<close>

definition accepting_env :: env where
  "accepting_env =
     \<lparr>manager_execute = (\<lambda>h q. Inr (PyInt 7)),
      manager_get = (\<lambda>h q. Inr \<lparr>obj_pk = PyInt 7, obj_attrs = []\<rparr>),
      set_related = (\<lambda>h pk f ids. Inr ()),
      get_related = (\<lambda>h pk config. Inr []),
      db_errors_handler = (\<lambda>exn. Unprocessable ''storage error''),
      is_iterable = (\<lambda>v. case v of PyList _ \<Rightarrow> True | _ \<Rightarrow> False)\<rparr>"

text \<open>
  Request bodies: a name and an empty tag list; the primary key and a tag list; the
  primary key and a read-only field; an empty tag list alone.
\<close>

definition sample_body :: Schema where
  "sample_body = [(''name'', PyStr ''x'', True), (''tags_ids'', PyList [], True)]"

definition relations_only_body :: Schema where
  "relations_only_body =
     [(''id'', PyInt 5, True), (''tags_ids'', PyList [PyInt 1, PyInt 1, PyInt 2], True)]"

definition id_only_body :: Schema where
  "id_only_body = [(''id'', PyInt 5, True), (''display_name'', PyStr ''d'', True)]"

definition clear_tags_body :: Schema where
  "clear_tags_body = [(''tags_ids'', PyList [], True)]"

section \<open>Properties\<close>

subsection \<open>Suffixes\<close>

lemma endswith_append: "endswith (f @ suffix) suffix"
  by (simp add: endswith_def)

lemma strip_postfix_append: "strip_postfix (f @ suffix) suffix = f"
  by (simp add: strip_postfix_def)

lemma endswith_iff: "endswith s suffix \<longleftrightarrow> (\<exists>p. s = p @ suffix)"
proof
  assume "endswith s suffix"
  then have "s = take (length s - length suffix) s @ suffix"
    by (metis append_take_drop_id endswith_def)
  then show "\<exists>p. s = p @ suffix" ..
next
  assume "\<exists>p. s = p @ suffix"
  then show "endswith s suffix" by (auto simp: endswith_append)
qed

lemma set_fk_rel_models:
  "set (fk_rel_models ds) = {rel. \<exists>d \<in> set ds. field_class d = ForeignKeyField rel}"
  by (induction ds) (auto split: field_class.splits)

lemma plan_field_acc:
  "plan_field vs n (S, J) = (S \<union> field_selected vs n, J \<union> field_joined vs n)"
  by (auto simp: plan_field_def field_selected_def field_joined_def Let_def
           split: option.splits field_class.splits)

lemma fold_plan_field:
  "fold (plan_field vs) ns (S, J) =
     (S \<union> (\<Union>n \<in> set ns. field_selected vs n), J \<union> (\<Union>n \<in> set ns. field_joined vs n))"
  by (induction ns arbitrary: S J) (auto simp: plan_field_acc)

lemma plan_fields_eq:
  "plan_fields vs ns =
     ((\<Union>n \<in> set ns. field_selected vs n), (\<Union>n \<in> set ns. field_joined vs n))"
  by (simp add: plan_fields_def fold_plan_field)

lemma selection_get_base_query:
  "selection (get_base_query vs ns) =
     (if (\<Union>n \<in> set ns. field_selected vs n) = {} then {SelField (pk_field vs)}
      else (\<Union>n \<in> set ns. field_selected vs n))"
  by (simp add: get_base_query_def plan_fields_eq selection_def new_query_def)

lemma joins_get_base_query:
  "q_joins (get_base_query vs ns) =
     (\<lambda>m. (model_name (model vs), m, LEFT_OUTER)) ` (\<Union>n \<in> set ns. field_joined vs n)"
  by (simp add: get_base_query_def plan_fields_eq new_query_def)

lemma fold_join_from:
  "fold (\<lambda>joined_model q. join_from q src joined_model LEFT_OUTER) js q =
     q\<lparr>q_joins := q_joins q \<union> (\<lambda>m. (src, m, LEFT_OUTER)) ` set js\<rparr>"
  by (induction js arbitrary: q) (auto simp: join_from_def)

lemma get_base_query_join_loop:
  assumes "plan_fields vs ns = (selected, joined)" and "set js = joined"
  shows "get_base_query vs ns =
     fold (\<lambda>joined_model q. join_from q (model_name (model vs)) joined_model LEFT_OUTER) js
       (new_query (model_name (model vs))
          (Select (if selected = {} then {SelField (pk_field vs)} else selected)))"
  using assms by (simp add: get_base_query_def fold_join_from new_query_def)

lemma field_unknown_no_fk_suffix:
  assumes "map_of (model_fields vs) n = None" "\<not> endswith n FK_FIELD_POSTFIX"
  shows "field_selected vs n =
           SelField ` set (dependencies_of vs n) \<union> SelModel ` set (fk_rel_models (dependencies_of vs n))"
    and "field_joined vs n = set (fk_rel_models (dependencies_of vs n))"
  using assms
  by (auto simp: plan_field_def field_selected_def field_joined_def dependencies_of_def Let_def
           split: option.splits)

lemma field_fk_id:
  assumes "map_of (model_fields vs) n = None" "endswith n FK_FIELD_POSTFIX"
  shows "field_selected vs n =
           {to_selectable (map_of (model_fields vs) (strip_postfix n FK_FIELD_POSTFIX))}"
    and "field_joined vs n = {}"
  using assms by (auto simp: plan_field_def field_selected_def field_joined_def)

lemma field_fk_direct:
  assumes "map_of (model_fields vs) n = Some fk" "field_class fk = ForeignKeyField rel"
  shows "field_selected vs n = {SelModel rel}" and "field_joined vs n = {rel}"
  using assms by (auto simp: plan_field_def field_selected_def field_joined_def)

lemma field_plain:
  assumes "map_of (model_fields vs) n = Some f" "\<forall>rel. field_class f \<noteq> ForeignKeyField rel"
  shows "field_selected vs n = {SelField f}" and "field_joined vs n = {}"
  using assms
  by (auto simp: plan_field_def field_selected_def field_joined_def split: field_class.splits)

subsection \<open>The planner on each kind of name\<close>

lemmas sample_defs = item_viewset_def item_model_def id_field_def name_field_def
  category_field_def tags_field_def item_schema_def

text \<open>
  Names that nothing in the model answers to, none of them ending in the foreign-key
  suffix, leave the selection at the primary key and add no join.
\<close>

lemma get_base_query_unknown_names:
  assumes "\<forall>n \<in> set ns. unknown_name vs n \<and> \<not> endswith n FK_FIELD_POSTFIX"
  shows "selection (get_base_query vs ns) = {SelField (pk_field vs)}
         \<and> q_joins (get_base_query vs ns) = {}"
proof -
  have "field_selected vs n = {} \<and> field_joined vs n = {}" if "n \<in> set ns" for n
  proof -
    from that assms have u: "unknown_name vs n" and e: "\<not> endswith n FK_FIELD_POSTFIX"
      by auto
    from u have m: "map_of (model_fields vs) n = None"
      and d: "dependencies_of vs n = []"
      by (auto simp: unknown_name_def dependencies_of_def)
    show ?thesis using field_unknown_no_fk_suffix[OF m e] d by simp
  qed
  then show ?thesis
    by (simp add: selection_get_base_query joins_get_base_query)
qed

text \<open>
  A name absent from the schema that ends in the foreign-key suffix, and whose stripped
  form is absent too, puts \<^verbatim>\<open>None\<close> into the selection.
\<close>

lemma get_base_query_unmatched_fk_suffix:
  assumes "n \<in> set ns"
    and "map_of (model_fields vs) n = None"
    and "endswith n FK_FIELD_POSTFIX"
    and "map_of (model_fields vs) (strip_postfix n FK_FIELD_POSTFIX) = None"
  shows "SelNone \<in> selection (get_base_query vs ns)"
proof -
  have "field_selected vs n = {SelNone}"
    using field_fk_id(1)[OF assms(2,3)] assms(4) by (simp add: to_selectable_def)
  with assms(1) show ?thesis by (auto simp: selection_get_base_query)
qed

text \<open>
  C1: a field set of unknown names should select exactly the primary key, with no join,
  each unknown name dropped. The name \<^verbatim>\<open>foo_id\<close> is unknown to the sample
  model (no column \<^verbatim>\<open>foo_id\<close>, no column \<^verbatim>\<open>foo\<close>, no relation, no property),
  yet the planner puts the \<^verbatim>\<open>None\<close> that \<^verbatim>\<open>dict.get\<close> returned into the
  selection, and the primary key is not selected.
\<close>

theorem unknown_fk_suffixed_name_selects_None:
  "unknown_name item_viewset ''foo_id''
   \<and> selection (get_base_query item_viewset [''foo_id'']) = {SelNone}
   \<and> selection (get_base_query item_viewset [''foo_id'']) \<noteq> {SelField (pk_field item_viewset)}
   \<and> q_joins (get_base_query item_viewset [''foo_id'']) = {}"
  by (simp add: unknown_name_def get_base_query_def plan_fields_def plan_field_def
        selection_def new_query_def to_selectable_def endswith_def strip_postfix_def
        FK_FIELD_POSTFIX_def M2M_FIELD_POSTFIX_def sample_defs)

text \<open>
  C2: when \<open>f\<close> is a foreign-key column and \<open>f + '_id'\<close>, not itself a column, is
  requested, the base query selects the column \<open>f\<close>, and the name adds no join: the
  loop body leaves \<^verbatim>\<open>joined\<close> as it was, the joins of the query are those the
  other requested names cause, and requested alone the name gives a query with no join.
\<close>

theorem fk_identifier_selects_column_without_join:
  assumes "map_of (model_fields vs) f = Some fk"
    and "field_class fk = ForeignKeyField rel"
    and "map_of (model_fields vs) (f @ FK_FIELD_POSTFIX) = None"
    and "f @ FK_FIELD_POSTFIX \<in> set ns"
  shows "SelField fk \<in> selection (get_base_query vs ns)
         \<and> plan_field vs (f @ FK_FIELD_POSTFIX) (selected, joined)
             = (insert (SelField fk) selected, joined)
         \<and> q_joins (get_base_query vs ns)
             = q_joins (get_base_query vs (removeAll (f @ FK_FIELD_POSTFIX) ns))
         \<and> q_joins (get_base_query vs [f @ FK_FIELD_POSTFIX]) = {}"
proof -
  let ?n = "f @ FK_FIELD_POSTFIX"
  have s: "field_selected vs ?n = {SelField fk}" and j: "field_joined vs ?n = {}"
    using field_fk_id[OF assms(3) endswith_append] assms(1)
    by (simp_all add: strip_postfix_append to_selectable_def)
  have 1: "SelField fk \<in> selection (get_base_query vs ns)"
    using s assms(4) by (auto simp: selection_get_base_query)
  have 2: "plan_field vs ?n (selected, joined) = (insert (SelField fk) selected, joined)"
    by (simp add: plan_field_acc s j)
  have "(\<Union>n \<in> set ns. field_joined vs n) = (\<Union>n \<in> set ns - {?n}. field_joined vs n)"
    using j by auto
  then have 3: "q_joins (get_base_query vs ns) = q_joins (get_base_query vs (removeAll ?n ns))"
    by (simp add: joins_get_base_query)
  have 4: "q_joins (get_base_query vs [?n]) = {}"
    by (simp add: joins_get_base_query j)
  from 1 2 3 4 show ?thesis by blast
qed

theorem fk_identifier_selects_column_without_join_witness:
  "SelField category_field \<in> selection (get_base_query item_viewset [''id'', ''category_id''])
   \<and> q_joins (get_base_query item_viewset [''category_id'']) = {}"
proof -
  have h1: "map_of (model_fields item_viewset) ''category'' = Some category_field"
    by (simp add: item_viewset_def)
  have h2: "field_class category_field = ForeignKeyField ''Category''"
    by (simp add: category_field_def)
  have h3: "map_of (model_fields item_viewset) (''category'' @ FK_FIELD_POSTFIX) = None"
    by (simp add: item_viewset_def FK_FIELD_POSTFIX_def)
  have h4: "''category'' @ FK_FIELD_POSTFIX \<in> set [''id'', ''category_id'']"
    by (simp add: FK_FIELD_POSTFIX_def)
  have e: "''category'' @ FK_FIELD_POSTFIX = ''category_id''"
    by (simp add: FK_FIELD_POSTFIX_def)
  from fk_identifier_selects_column_without_join[OF h1 h2 h3 h4]
  show ?thesis unfolding e by blast
qed

text \<open>
  C3: a requested name that is itself a foreign-key column makes the base query select
  the related model and join it from the base model with a LEFT OUTER join; every join
  of a base query is LEFT OUTER.
\<close>

theorem fk_column_selects_and_left_joins_related_model:
  assumes "n \<in> set ns"
    and "map_of (model_fields vs) n = Some fk"
    and "field_class fk = ForeignKeyField rel"
  shows "SelModel rel \<in> selection (get_base_query vs ns)
         \<and> (model_name (model vs), rel, LEFT_OUTER) \<in> q_joins (get_base_query vs ns)
         \<and> (\<forall>j \<in> q_joins (get_base_query vs ns). snd (snd j) = LEFT_OUTER)"
proof -
  have s: "field_selected vs n = {SelModel rel}" and j: "field_joined vs n = {rel}"
    using field_fk_direct[OF assms(2,3)] by simp_all
  have 1: "SelModel rel \<in> selection (get_base_query vs ns)"
    using s assms(1) by (auto simp: selection_get_base_query)
  have 2: "(model_name (model vs), rel, LEFT_OUTER) \<in> q_joins (get_base_query vs ns)"
    using j assms(1) by (auto simp: joins_get_base_query)
  have 3: "\<forall>j \<in> q_joins (get_base_query vs ns). snd (snd j) = LEFT_OUTER"
    by (auto simp: joins_get_base_query)
  from 1 2 3 show ?thesis by blast
qed

theorem fk_column_selects_and_left_joins_related_model_witness:
  "SelModel ''Category'' \<in> selection (get_base_query item_viewset [''id'', ''category''])
   \<and> (''Item'', ''Category'', LEFT_OUTER) \<in> q_joins (get_base_query item_viewset [''id'', ''category''])"
proof -
  have h1: "''category'' \<in> set [''id'', ''category'']" by simp
  have h2: "map_of (model_fields item_viewset) ''category'' = Some category_field"
    by (simp add: item_viewset_def)
  have h3: "field_class category_field = ForeignKeyField ''Category''"
    by (simp add: category_field_def)
  have m: "model_name (model item_viewset) = ''Item''"
    by (simp add: item_viewset_def item_model_def)
  from fk_column_selects_and_left_joins_related_model[OF h1 h2 h3]
  show ?thesis unfolding m by blast
qed

text \<open>
  A requested name that is not a column and does not end in the foreign-key suffix is
  read as a computed property. Every column of its dependency list (the empty list
  when the property is unknown) is selected, and for each dependency that is a
  foreign-key column the related model is joined (LEFT OUTER) and selected. On the
  model with columns id, name and the foreign key category, where display_name depends
  on name, the fields id, display_name, category_id select id, name and category, with
  no join.
\<close>

lemma computed_property_selects_dependencies:
  "(n \<in> set ns \<and> map_of (model_fields vs) n = None \<and> \<not> endswith n FK_FIELD_POSTFIX \<longrightarrow>
      (\<forall>d \<in> set (dependencies_of vs n).
          SelField d \<in> selection (get_base_query vs ns)
          \<and> (\<forall>rel. is_fk_to d rel \<longrightarrow>
                (model_name (model vs), rel, LEFT_OUTER) \<in> q_joins (get_base_query vs ns)
                \<and> SelModel rel \<in> selection (get_base_query vs ns))))
   \<and> (map_of (model_props_dependencies vs) n = None \<longrightarrow> dependencies_of vs n = [])
   \<and> selection (get_base_query item_viewset [''id'', ''display_name'', ''category_id''])
       = {SelField id_field, SelField name_field, SelField category_field}
   \<and> q_joins (get_base_query item_viewset [''id'', ''display_name'', ''category_id'']) = {}"
proof -
  have 1: "SelField d \<in> selection (get_base_query vs ns)
           \<and> (\<forall>rel. is_fk_to d rel \<longrightarrow>
                (model_name (model vs), rel, LEFT_OUTER) \<in> q_joins (get_base_query vs ns)
                \<and> SelModel rel \<in> selection (get_base_query vs ns))"
    if n: "n \<in> set ns" and m: "map_of (model_fields vs) n = None"
      and e: "\<not> endswith n FK_FIELD_POSTFIX" and d: "d \<in> set (dependencies_of vs n)" for d
  proof -
    note fs = field_unknown_no_fk_suffix[OF m e]
    have a: "SelField d \<in> field_selected vs n" using d fs(1) by simp
    have b: "rel \<in> field_joined vs n \<and> SelModel rel \<in> field_selected vs n"
      if "is_fk_to d rel" for rel
      using that d fs by (auto simp: set_fk_rel_models is_fk_to_def)
    from a n have "SelField d \<in> selection (get_base_query vs ns)"
      by (auto simp: selection_get_base_query)
    moreover from b n have "\<forall>rel. is_fk_to d rel \<longrightarrow>
        (model_name (model vs), rel, LEFT_OUTER) \<in> q_joins (get_base_query vs ns)
        \<and> SelModel rel \<in> selection (get_base_query vs ns)"
      by (auto simp: selection_get_base_query joins_get_base_query)
    ultimately show ?thesis by blast
  qed
  have 2: "map_of (model_props_dependencies vs) n = None \<longrightarrow> dependencies_of vs n = []"
    by (simp add: dependencies_of_def)
  have 3: "selection (get_base_query item_viewset [''id'', ''display_name'', ''category_id''])
       = {SelField id_field, SelField name_field, SelField category_field}"
    by (auto simp: get_base_query_def plan_fields_def plan_field_def
        selection_def new_query_def to_selectable_def endswith_def strip_postfix_def
        FK_FIELD_POSTFIX_def sample_defs)
  have 4: "q_joins (get_base_query item_viewset [''id'', ''display_name'', ''category_id'']) = {}"
    by (simp add: get_base_query_def plan_fields_def plan_field_def
        selection_def new_query_def to_selectable_def endswith_def strip_postfix_def
        FK_FIELD_POSTFIX_def sample_defs)
  from 1 2 3 4 show ?thesis by blast
qed

lemma computed_property_selects_dependencies_sample:
  "SelField name_field \<in> selection (get_base_query item_viewset [''id'', ''display_name''])
   \<and> SelField category_field \<in> selection (get_base_query labelled_viewset [''label''])
   \<and> (model_name (model labelled_viewset), ''Category'', LEFT_OUTER)
       \<in> q_joins (get_base_query labelled_viewset [''label''])
   \<and> SelModel ''Category'' \<in> selection (get_base_query labelled_viewset [''label''])"
proof -
  have h1: "''display_name'' \<in> set [''id'', ''display_name'']" by simp
  have h2: "map_of (model_fields item_viewset) ''display_name'' = None"
    by (simp add: item_viewset_def)
  have h3: "\<not> endswith ''display_name'' FK_FIELD_POSTFIX"
    by (simp add: endswith_def FK_FIELD_POSTFIX_def)
  have h4: "name_field \<in> set (dependencies_of item_viewset ''display_name'')"
    by (simp add: dependencies_of_def item_viewset_def)
  from computed_property_selects_dependencies
         [of "''display_name''" "[''id'', ''display_name'']" item_viewset] h1 h2 h3 h4
  have a: "SelField name_field \<in> selection (get_base_query item_viewset [''id'', ''display_name''])"
    by blast
  have g1: "''label'' \<in> set [''label'']" by simp
  have g2: "map_of (model_fields labelled_viewset) ''label'' = None"
    by (simp add: labelled_viewset_def item_viewset_def)
  have g3: "\<not> endswith ''label'' FK_FIELD_POSTFIX"
    by (simp add: endswith_def FK_FIELD_POSTFIX_def)
  have g4: "category_field \<in> set (dependencies_of labelled_viewset ''label'')"
    by (simp add: dependencies_of_def labelled_viewset_def)
  have g5: "is_fk_to category_field ''Category''"
    by (simp add: is_fk_to_def category_field_def)
  from computed_property_selects_dependencies
         [of "''label''" "[''label'']" labelled_viewset] g1 g2 g3 g4 g5
  have b: "SelField category_field \<in> selection (get_base_query labelled_viewset [''label''])
   \<and> (model_name (model labelled_viewset), ''Category'', LEFT_OUTER)
       \<in> q_joins (get_base_query labelled_viewset [''label''])
   \<and> SelModel ''Category'' \<in> selection (get_base_query labelled_viewset [''label''])"
    by blast
  from a b show ?thesis by blast
qed

text \<open>
  C4: a requested name that is not a column and is no foreign-key identifier is a
  computed property, and every column of its dependency list should be selected. The
  property \<^verbatim>\<open>external_id\<close> of the sample handler is not a column, its stripped
  form \<^verbatim>\<open>external\<close> is not a column either, and it depends on the column
  \<^verbatim>\<open>name\<close>; requested, it is taken for a foreign-key identifier because of its
  suffix, the dependency map is not read, and the base query selects \<^verbatim>\<open>None\<close>
  and not the column \<^verbatim>\<open>name\<close>.
\<close>

theorem computed_property_with_fk_suffix_selects_None:
  "map_of (model_fields external_viewset) ''external_id'' = None
   \<and> map_of (model_fields external_viewset) (strip_postfix ''external_id'' FK_FIELD_POSTFIX) = None
   \<and> dependencies_of external_viewset ''external_id'' = [name_field]
   \<and> selection (get_base_query external_viewset [''external_id'']) = {SelNone}
   \<and> SelField name_field \<notin> selection (get_base_query external_viewset [''external_id''])
   \<and> q_joins (get_base_query external_viewset [''external_id'']) = {}"
  by (simp add: external_viewset_def dependencies_of_def get_base_query_def plan_fields_def
        plan_field_def selection_def new_query_def to_selectable_def endswith_def
        strip_postfix_def FK_FIELD_POSTFIX_def sample_defs)

subsection \<open>The prefetch plan\<close>

lemma build_prefetch_config_Cons:
  "build_prefetch_config vs (a # ns) =
     (case map_of (manytomany (model vs)) (m2m_stripped a) of
        None \<Rightarrow> build_prefetch_config vs ns
      | Some fld \<Rightarrow>
          \<lparr>pf_field = fld, attr_name = a, ids_only = endswith a M2M_FIELD_POSTFIX\<rparr>
            # build_prefetch_config vs ns)"
  by (simp add: m2m_stripped_def Let_def)

lemma set_build_prefetch_config:
  "set (build_prefetch_config vs ns) =
     {\<lparr>pf_field = fld, attr_name = n, ids_only = endswith n M2M_FIELD_POSTFIX\<rparr> | n fld.
        n \<in> set ns \<and> map_of (manytomany (model vs)) (m2m_stripped n) = Some fld}"
proof (induction ns)
  case Nil
  then show ?case by simp
next
  case (Cons a ns)
  show ?case
  proof (cases "map_of (manytomany (model vs)) (m2m_stripped a)")
    case None
    then show ?thesis
      unfolding build_prefetch_config_Cons using Cons by auto
  next
    case (Some fld)
    then show ?thesis
      unfolding build_prefetch_config_Cons using Cons by auto
  qed
qed

lemma endswith_m2m_append: "m2m_stripped (r @ M2M_FIELD_POSTFIX) = r"
  by (simp add: m2m_stripped_def endswith_append strip_postfix_append)

text \<open>
  C5, amended: for a many-to-many relation \<open>r\<close> whose own name does not end in the
  many-to-many suffix, requesting \<open>r\<close> gives a prefetch entry for it with
  \<^verbatim>\<open>ids_only\<close> false under the attribute \<open>r\<close>; for every relation \<open>r\<close>,
  requesting \<open>r + '_ids'\<close> gives an entry with \<^verbatim>\<open>ids_only\<close> true under the
  attribute \<open>r + '_ids'\<close>; a name whose stripped form is not a relation gives no
  entry.
\<close>

theorem prefetch_entries:
  "(map_of (manytomany (model vs)) r = Some fld \<and> \<not> endswith r M2M_FIELD_POSTFIX \<and> r \<in> set ns
      \<longrightarrow> \<lparr>pf_field = fld, attr_name = r, ids_only = False\<rparr> \<in> set (build_prefetch_config vs ns))
   \<and> (map_of (manytomany (model vs)) r = Some fld \<and> r @ M2M_FIELD_POSTFIX \<in> set ns
      \<longrightarrow> \<lparr>pf_field = fld, attr_name = r @ M2M_FIELD_POSTFIX, ids_only = True\<rparr>
            \<in> set (build_prefetch_config vs ns))
   \<and> (map_of (manytomany (model vs)) (m2m_stripped n) = None
      \<longrightarrow> (\<forall>p \<in> set (build_prefetch_config vs ns). attr_name p \<noteq> n))"
proof -
  have 1: "\<lparr>pf_field = fld, attr_name = r, ids_only = False\<rparr> \<in> set (build_prefetch_config vs ns)"
    if "map_of (manytomany (model vs)) r = Some fld" "\<not> endswith r M2M_FIELD_POSTFIX" "r \<in> set ns"
  proof -
    have "m2m_stripped r = r" using that(2) by (simp add: m2m_stripped_def)
    with that show ?thesis unfolding set_build_prefetch_config by force
  qed
  have 2: "\<lparr>pf_field = fld, attr_name = r @ M2M_FIELD_POSTFIX, ids_only = True\<rparr>
            \<in> set (build_prefetch_config vs ns)"
    if "map_of (manytomany (model vs)) r = Some fld" "r @ M2M_FIELD_POSTFIX \<in> set ns"
    using that unfolding set_build_prefetch_config
    by (force simp: endswith_m2m_append endswith_append)
  have 3: "\<forall>p \<in> set (build_prefetch_config vs ns). attr_name p \<noteq> n"
    if "map_of (manytomany (model vs)) (m2m_stripped n) = None"
    using that unfolding set_build_prefetch_config by auto
  from 1 2 3 show ?thesis by blast
qed

theorem prefetch_entries_witness:
  "\<lparr>pf_field = tags_field, attr_name = ''tags'', ids_only = False\<rparr>
     \<in> set (build_prefetch_config item_viewset [''tags'', ''tags_ids'', ''name''])
   \<and> \<lparr>pf_field = tags_field, attr_name = ''tags_ids'', ids_only = True\<rparr>
     \<in> set (build_prefetch_config item_viewset [''tags'', ''tags_ids'', ''name''])
   \<and> \<lparr>pf_field = tags_field, attr_name = ''name'', ids_only = False\<rparr>
     \<notin> set (build_prefetch_config item_viewset [''tags'', ''tags_ids'', ''name''])"
proof -
  have h1: "map_of (manytomany (model item_viewset)) ''tags'' = Some tags_field"
    by (simp add: item_viewset_def item_model_def)
  have h2: "\<not> endswith ''tags'' M2M_FIELD_POSTFIX"
    by (simp add: endswith_def M2M_FIELD_POSTFIX_def)
  have h3: "''tags'' \<in> set [''tags'', ''tags_ids'', ''name'']" by simp
  have h4: "''tags'' @ M2M_FIELD_POSTFIX \<in> set [''tags'', ''tags_ids'', ''name'']"
    by (simp add: M2M_FIELD_POSTFIX_def)
  have e: "''tags'' @ M2M_FIELD_POSTFIX = ''tags_ids''"
    by (simp add: M2M_FIELD_POSTFIX_def)
  have h5: "map_of (manytomany (model item_viewset)) (m2m_stripped ''name'') = None"
    by (simp add: item_viewset_def item_model_def m2m_stripped_def endswith_def
          M2M_FIELD_POSTFIX_def)
  from prefetch_entries[of item_viewset "''tags''" tags_field "[''tags'', ''tags_ids'', ''name'']"]
    h1 h2 h3 h4
  have a: "\<lparr>pf_field = tags_field, attr_name = ''tags'', ids_only = False\<rparr>
     \<in> set (build_prefetch_config item_viewset [''tags'', ''tags_ids'', ''name''])
   \<and> \<lparr>pf_field = tags_field, attr_name = ''tags_ids'', ids_only = True\<rparr>
     \<in> set (build_prefetch_config item_viewset [''tags'', ''tags_ids'', ''name''])"
    unfolding e by blast
  from prefetch_entries[of item_viewset _ _ "[''tags'', ''tags_ids'', ''name'']" "''name''"] h5
  have "\<forall>p \<in> set (build_prefetch_config item_viewset [''tags'', ''tags_ids'', ''name'']).
          attr_name p \<noteq> ''name''"
    by blast
  then have b: "\<lparr>pf_field = tags_field, attr_name = ''name'', ids_only = False\<rparr>
     \<notin> set (build_prefetch_config item_viewset [''tags'', ''tags_ids'', ''name''])"
    by force
  from a b show ?thesis by blast
qed

text \<open>
  The claim as first stated fails for a relation whose name ends in the suffix: the
  relation \<^verbatim>\<open>tag_ids\<close>, requested by its name, is looked up as \<^verbatim>\<open>tag\<close> and no
  entry is produced.
\<close>

theorem prefetch_relation_named_with_suffix_counterexample:
  "map_of (manytomany (model suffixed_viewset)) ''tag_ids'' = Some tag_ids_field
   \<and> ''tag_ids'' \<in> set [''tag_ids'']
   \<and> \<lparr>pf_field = tag_ids_field, attr_name = ''tag_ids'', ids_only = False\<rparr>
       \<notin> set (build_prefetch_config suffixed_viewset [''tag_ids''])
   \<and> build_prefetch_config suffixed_viewset [''tag_ids''] = []"
  by (simp add: suffixed_viewset_def item_viewset_def item_model_def endswith_def
        strip_postfix_def M2M_FIELD_POSTFIX_def)

subsection \<open>Construction and lookup\<close>

lemma validate_model_error:
  "validate_model self m = Inl err \<Longrightarrow> is_configuration_error err"
  by (auto simp: validate_model_def is_configuration_error_def
           split: model_arg.splits option.splits if_splits)

lemma validated_fields_loop_error:
  "validated_fields_loop self items acc = Inl err \<Longrightarrow> is_configuration_error err"
  by (induction self items acc rule: validated_fields_loop.induct)
     (auto simp: is_configuration_error_def split: field_class.splits option.splits if_splits)

lemma init_error: "init self m = Inl err \<Longrightarrow> is_configuration_error err"
  by (auto simp: init_def get_validated_model_fields_def
           dest: validate_model_error validated_fields_loop_error
           split: sum.splits)

lemma validate_model_secondary:
  assumes "validate_model self m = Inr mc" and "cls_secondary_lookup_field self = Some s"
  shows "length (cls_pk_type_choices self) > 1 \<and> unique s"
  using assms
  by (auto simp: validate_model_def split: model_arg.splits option.splits if_splits)

lemma init_fields:
  assumes "init self m = Inr vs"
  shows "secondary_lookup_field vs = cls_secondary_lookup_field self"
    and "pk_type_choices vs = cls_pk_type_choices self"
    and "\<exists>mc. validate_model self (model_or_default m (cls_model self)) = Inr mc"
  using assms by (auto simp: init_def split: sum.splits)

text \<open>
  C6: with a secondary lookup field configured and a value whose runtime type differs
  from the first primary-key type choice, \<^verbatim>\<open>lookup_expr\<close> equates the secondary
  field with the value; with the same type, or with no secondary field, it equates the
  primary-key column with the value. On a handler that construction has returned the
  read of the first type choice never fails.
\<close>

theorem lookup_expr_routes_by_type:
  "(secondary_lookup_field vs = Some s \<and> pk_type_choices vs = t # ts \<and> type_of pk \<noteq> t
      \<longrightarrow> lookup_expr vs pk = Inr (FieldEq s pk))
   \<and> (secondary_lookup_field vs = Some s \<and> pk_type_choices vs = t # ts \<and> type_of pk = t
      \<longrightarrow> lookup_expr vs pk = Inr (FieldEq (pk_field vs) pk))
   \<and> (secondary_lookup_field vs = None \<longrightarrow> lookup_expr vs pk = Inr (FieldEq (pk_field vs) pk))
   \<and> (init self m = Inr vs \<longrightarrow> lookup_expr vs pk \<noteq> Inl IndexError)"
proof -
  have 4: "lookup_expr vs pk \<noteq> Inl IndexError" if i: "init self m = Inr vs"
  proof (cases "secondary_lookup_field vs")
    case None
    then show ?thesis by (simp add: lookup_expr_def)
  next
    case (Some s')
    from init_fields[OF i] Some obtain mc where
      v: "validate_model self (model_or_default m (cls_model self)) = Inr mc"
      and c: "cls_secondary_lookup_field self = Some s'"
      and p: "pk_type_choices vs = cls_pk_type_choices self"
      by auto
    from validate_model_secondary[OF v c] p have "pk_type_choices vs \<noteq> []" by auto
    then show ?thesis using Some by (auto simp: lookup_expr_def split: list.splits)
  qed
  show ?thesis using 4 by (auto simp: lookup_expr_def)
qed

theorem lookup_expr_routes_by_type_witness:
  "lookup_expr slug_viewset (PyStr ''first-post'') = Inr (FieldEq slug_field (PyStr ''first-post''))
   \<and> lookup_expr slug_viewset (PyInt 3) = Inr (FieldEq (pk_field slug_viewset) (PyInt 3))
   \<and> lookup_expr item_viewset (PyStr ''x'') = Inr (FieldEq (pk_field item_viewset) (PyStr ''x''))"
proof -
  have h1: "secondary_lookup_field slug_viewset = Some slug_field"
    by (simp add: slug_viewset_def)
  have h2: "pk_type_choices slug_viewset = IntT # [StrT]"
    by (simp add: slug_viewset_def)
  have h3: "type_of (PyStr ''first-post'') \<noteq> IntT" by simp
  have h4: "type_of (PyInt 3) = IntT" by simp
  have h5: "secondary_lookup_field item_viewset = None" by (simp add: item_viewset_def)
  from lookup_expr_routes_by_type[of slug_viewset slug_field IntT "[StrT]" "PyStr ''first-post''"]
    h1 h2 h3
  have a: "lookup_expr slug_viewset (PyStr ''first-post'') = Inr (FieldEq slug_field (PyStr ''first-post''))"
    by blast
  from lookup_expr_routes_by_type[of slug_viewset slug_field IntT "[StrT]" "PyInt 3"] h1 h2 h4
  have b: "lookup_expr slug_viewset (PyInt 3) = Inr (FieldEq (pk_field slug_viewset) (PyInt 3))"
    by blast
  from lookup_expr_routes_by_type[of item_viewset _ _ _ "PyStr ''x''"] h5
  have c: "lookup_expr item_viewset (PyStr ''x'') = Inr (FieldEq (pk_field item_viewset) (PyStr ''x''))"
    by blast
  from a b c show ?thesis by blast
qed

text \<open>
  C9: when a secondary lookup field is configured and there is only one primary-key
  type choice, or the field is not unique, construction ends in a configuration error
  and returns no handler; on a model that passes the earlier checks the error is the
  assertion of the violated condition; with no secondary field, or with more than one
  type choice and a unique field, \<^verbatim>\<open>validate_model\<close> returns the model.
\<close>

theorem construction_rejects_invalid_secondary_lookup:
  "(cls_secondary_lookup_field self = Some s
      \<and> (length (cls_pk_type_choices self) = 1 \<or> \<not> unique s)
      \<longrightarrow> (\<exists>err. init self m = Inl err \<and> is_configuration_error err))
   \<and> (db_is_set mc \<and> manager_is_set mc \<and> cls_secondary_lookup_field self = Some s
       \<and> length (cls_pk_type_choices self) \<le> 1
      \<longrightarrow> validate_model self (ModelSubclass mc)
            = Inl (AssertionError ''Secondary lookup field type must be set''))
   \<and> (db_is_set mc \<and> manager_is_set mc \<and> cls_secondary_lookup_field self = Some s
       \<and> length (cls_pk_type_choices self) > 1 \<and> \<not> unique s
      \<longrightarrow> validate_model self (ModelSubclass mc)
            = Inl (AssertionError ''Non unique secondary lookup field''))
   \<and> (db_is_set mc \<and> manager_is_set mc
       \<and> (cls_secondary_lookup_field self = None
          \<or> (cls_secondary_lookup_field self = Some s
              \<and> length (cls_pk_type_choices self) > 1 \<and> unique s))
      \<longrightarrow> validate_model self (ModelSubclass mc) = Inr mc)"
proof -
  have 1: "\<exists>err. init self m = Inl err \<and> is_configuration_error err"
    if c: "cls_secondary_lookup_field self = Some s"
      and b: "length (cls_pk_type_choices self) = 1 \<or> \<not> unique s"
  proof (cases "init self m")
    case (Inl err)
    then show ?thesis using init_error by blast
  next
    case (Inr vs)
    from init_fields(3)[OF Inr] obtain mc' where
      "validate_model self (model_or_default m (cls_model self)) = Inr mc'" by blast
    from validate_model_secondary[OF this c] b show ?thesis by auto
  qed
  have 2: "validate_model self (ModelSubclass mc)
            = Inl (AssertionError ''Secondary lookup field type must be set'')"
    if "db_is_set mc" "manager_is_set mc" "cls_secondary_lookup_field self = Some s"
       "length (cls_pk_type_choices self) \<le> 1"
    using that by (simp add: validate_model_def)
  have 3: "validate_model self (ModelSubclass mc)
            = Inl (AssertionError ''Non unique secondary lookup field'')"
    if "db_is_set mc" "manager_is_set mc" "cls_secondary_lookup_field self = Some s"
       "length (cls_pk_type_choices self) > 1" "\<not> unique s"
    using that by (simp add: validate_model_def)
  have 4: "validate_model self (ModelSubclass mc) = Inr mc"
    if "db_is_set mc" "manager_is_set mc"
       "cls_secondary_lookup_field self = None
          \<or> (cls_secondary_lookup_field self = Some s
              \<and> length (cls_pk_type_choices self) > 1 \<and> unique s)"
    using that by (auto simp: validate_model_def)
  from 1 2 3 4 show ?thesis by blast
qed

theorem construction_rejects_invalid_secondary_lookup_witness:
  "validate_model (slug_viewset_class\<lparr>cls_pk_type_choices := [IntT]\<rparr>) (ModelSubclass item_model)
     = Inl (AssertionError ''Secondary lookup field type must be set'')
   \<and> validate_model (slug_viewset_class\<lparr>cls_secondary_lookup_field := Some name_field\<rparr>)
        (ModelSubclass item_model)
     = Inl (AssertionError ''Non unique secondary lookup field'')
   \<and> validate_model slug_viewset_class (ModelSubclass item_model) = Inr item_model
   \<and> validate_model item_viewset_class (ModelSubclass item_model) = Inr item_model
   \<and> (\<exists>err. init (slug_viewset_class\<lparr>cls_pk_type_choices := [IntT]\<rparr>) (Instance PyNone) = Inl err
             \<and> is_configuration_error err)"
proof -
  let ?bad = "slug_viewset_class\<lparr>cls_pk_type_choices := [IntT]\<rparr>"
  let ?dup = "slug_viewset_class\<lparr>cls_secondary_lookup_field := Some name_field\<rparr>"
  have d: "db_is_set item_model" and g: "manager_is_set item_model"
    by (simp_all add: item_model_def)
  have h1: "cls_secondary_lookup_field ?bad = Some slug_field"
    by (simp add: slug_viewset_class_def)
  have h2: "length (cls_pk_type_choices ?bad) \<le> 1" by simp
  have h3: "cls_secondary_lookup_field slug_viewset_class = Some slug_field"
    by (simp add: slug_viewset_class_def)
  have h4: "length (cls_pk_type_choices slug_viewset_class) > 1"
    by (simp add: slug_viewset_class_def)
  have h5: "unique slug_field" by (simp add: slug_field_def)
  have h6: "length (cls_pk_type_choices ?bad) = 1" by simp
  have k1: "cls_secondary_lookup_field ?dup = Some name_field" by simp
  have k2: "length (cls_pk_type_choices ?dup) > 1" by (simp add: slug_viewset_class_def)
  have k3: "\<not> unique name_field" by (simp add: name_field_def)
  have n1: "cls_secondary_lookup_field item_viewset_class = None"
    by (simp add: item_viewset_class_def)
  from construction_rejects_invalid_secondary_lookup[of ?bad slug_field _ item_model] d g h1 h2
  have a: "validate_model ?bad (ModelSubclass item_model)
     = Inl (AssertionError ''Secondary lookup field type must be set'')"
    by blast
  from construction_rejects_invalid_secondary_lookup[of slug_viewset_class slug_field _ item_model]
    d g h3 h4 h5
  have b: "validate_model slug_viewset_class (ModelSubclass item_model) = Inr item_model"
    by blast
  from construction_rejects_invalid_secondary_lookup[of ?bad slug_field "Instance PyNone"] h1 h6
  have c: "\<exists>err. init ?bad (Instance PyNone) = Inl err \<and> is_configuration_error err"
    by blast
  from construction_rejects_invalid_secondary_lookup[of ?dup name_field _ item_model] d g k1 k2 k3
  have a': "validate_model ?dup (ModelSubclass item_model)
     = Inl (AssertionError ''Non unique secondary lookup field'')"
    by blast
  from construction_rejects_invalid_secondary_lookup[of item_viewset_class _ _ item_model] d g n1
  have b': "validate_model item_viewset_class (ModelSubclass item_model) = Inr item_model"
    by blast
  from a a' b b' c show ?thesis by blast
qed

subsection \<open>Relation writes\<close>

text \<open>Equal elements are merged, whatever their class; the first one added stays.\<close>

lemma py_set_merges_equal_elements:
  "py_set (PyList [PyInt 1, PyBool True, PyInt 0, PyBool False]) = Inr {PyInt 0, PyInt 1}"
  by (auto simp: set_add_def py_eq_def)

lemma py_set_empty_iff:
  "py_set (PyList xs) = Inr ids \<Longrightarrow> ids = {} \<longleftrightarrow> xs = []"
proof -
  have ne: "fold set_add ys s \<noteq> {}" if "s \<noteq> {}" for ys s
    using that by (induction ys arbitrary: s) (auto simp: set_add_def)
  assume "py_set (PyList xs) = Inr ids"
  then have ids: "ids = fold set_add xs {}" by (auto split: if_splits)
  show ?thesis
  proof (cases xs)
    case Nil
    then show ?thesis using ids by simp
  next
    case (Cons x ys)
    have "set_add x {} \<noteq> {}" by (simp add: set_add_def)
    from ne[OF this] Cons ids show ?thesis by simp
  qed
qed

lemma create_related_history:
  "\<exists>k. snd (create_related e pk related h)
        = h @ take k (map (set_related_op pk) (filter (\<lambda>p. snd p \<noteq> {}) related))"
proof (induction related arbitrary: h)
  case Nil
  then show ?case by simp
next
  case (Cons p related)
  obtain f ids where p: "p = (f, ids)" by (cases p)
  show ?case
  proof (cases "ids = {}")
    case True
    then show ?thesis using Cons[of h] p by simp
  next
    case False
    show ?thesis
    proof (cases "set_related e h pk f ids")
      case (Inl exn)
      have "snd (create_related e pk (p # related) h)
            = h @ take 1 (map (set_related_op pk) (filter (\<lambda>p. snd p \<noteq> {}) (p # related)))"
        using Inl False p by (simp add: set_related_op_def)
      then show ?thesis by blast
    next
      case (Inr u)
      from Cons[of "h @ [SetRelated pk f ids]"] obtain k where
        "snd (create_related e pk related (h @ [SetRelated pk f ids]))
           = (h @ [SetRelated pk f ids])
             @ take k (map (set_related_op pk) (filter (\<lambda>p. snd p \<noteq> {}) related))"
        by blast
      then have "snd (create_related e pk (p # related) h)
            = h @ take (Suc k) (map (set_related_op pk) (filter (\<lambda>p. snd p \<noteq> {}) (p # related)))"
        using Inr False p by (simp add: set_related_op_def)
      then show ?thesis by blast
    qed
  qed
qed


lemma update_related_history:
  "\<exists>k. snd (update_related e pk related h) = h @ take k (map (set_related_op pk) related)"
proof (induction related arbitrary: h)
  case Nil
  then show ?case by simp
next
  case (Cons p related)
  obtain f ids where p: "p = (f, ids)" by (cases p)
  show ?case
  proof (cases "set_related e h pk f ids")
    case (Inl exn)
    have "snd (update_related e pk (p # related) h)
          = h @ take 1 (map (set_related_op pk) (p # related))"
      using Inl p by (simp add: set_related_op_def)
    then show ?thesis by blast
  next
    case (Inr u)
    from Cons[of "h @ [SetRelated pk f ids]"] obtain k where
      "snd (update_related e pk related (h @ [SetRelated pk f ids]))
         = (h @ [SetRelated pk f ids]) @ take k (map (set_related_op pk) related)"
      by blast
    then have "snd (update_related e pk (p # related) h)
          = h @ take (Suc k) (map (set_related_op pk) (p # related))"
      using Inr p by (simp add: set_related_op_def)
    then show ?thesis by blast
  qed
qed

lemma update_related_None:
  "update_related e pk related h = (None, h')
   \<Longrightarrow> h' = h @ map (set_related_op pk) related"
proof (induction related arbitrary: h)
  case Nil
  then show ?case by simp
next
  case (Cons p related)
  obtain f ids where p: "p = (f, ids)" by (cases p)
  show ?case
  proof (cases "set_related e h pk f ids")
    case (Inl exn)
    then show ?thesis using Cons.prems p by simp
  next
    case (Inr u)
    then have "update_related e pk related (h @ [SetRelated pk f ids]) = (None, h')"
      using Cons.prems p by simp
    from Cons.IH[OF this] show ?thesis using p by (simp add: set_related_op_def)
  qed
qed

lemma update_related_Some:
  "update_related e pk related h = (Some exn, h')
   \<Longrightarrow> \<exists>p \<in> set related. \<exists>h0. set_related e h0 pk (fst p) (snd p) = Inl exn"
proof (induction related arbitrary: h)
  case Nil
  then show ?case by simp
next
  case (Cons p related)
  obtain f ids where p: "p = (f, ids)" by (cases p)
  show ?case
  proof (cases "set_related e h pk f ids")
    case (Inl exn')
    then show ?thesis using Cons.prems p by auto
  next
    case (Inr u)
    then have "update_related e pk related (h @ [SetRelated pk f ids]) = (Some exn, h')"
      using Cons.prems p by simp
    from Cons.IH[OF this] show ?thesis by auto
  qed
qed

lemma update_related_all_ok:
  "\<forall>p \<in> set related. \<forall>h0. set_related e h0 pk (fst p) (snd p) = Inr ()
   \<Longrightarrow> update_related e pk related h = (None, h @ map (set_related_op pk) related)"
proof (induction related arbitrary: h)
  case Nil
  then show ?case by simp
next
  case (Cons p related)
  obtain f ids where p: "p = (f, ids)" by (cases p)
  from Cons.prems p have ok: "set_related e h pk f ids = Inr ()" by auto
  from Cons.prems have "\<forall>p \<in> set related. \<forall>h0. set_related e h0 pk (fst p) (snd p) = Inr ()"
    by simp
  from Cons.IH[OF this, of "h @ [SetRelated pk f ids]"] ok p
  show ?case by (simp add: set_related_op_def)
qed

lemma set_related_op_not_execute: "\<not> is_execute (set_related_op pk p)"
  by (simp add: is_execute_def set_related_op_def)

lemmas eval_defs = serialize_request_body_for_db_def body_dict_def set_add_def py_eq_def endswith_def
  strip_postfix_def FK_FIELD_POSTFIX_def M2M_FIELD_POSTFIX_def accepting_env_def
  item_viewset_def item_model_def item_schema_def id_field_def name_field_def
  category_field_def tags_field_def

subsection \<open>Create\<close>

lemma create_history:
  assumes "serialize_request_body_for_db e vs body True = Inr (data, related)"
  shows "if data = [] then snd (create e vs body h) = h
         else (\<exists>k. snd (create e vs body h)
                  = h @ Execute (new_query (model_name (model vs)) (Insert data))
                        # take k (map (set_related_op (projr (manager_execute e h
                              (new_query (model_name (model vs)) (Insert data)))))
                                   (filter (\<lambda>p. snd p \<noteq> {}) related)))"
proof (cases "data = []")
  case True
  then show ?thesis using assms by (simp add: create_def)
next
  case False
  let ?q = "new_query (model_name (model vs)) (Insert data)"
  have "\<exists>k. snd (create e vs body h)
                  = h @ Execute ?q
                        # take k (map (set_related_op (projr (manager_execute e h ?q)))
                                   (filter (\<lambda>p. snd p \<noteq> {}) related))"
  proof (cases "manager_execute e h ?q")
    case (Inl exn)
    then have "snd (create e vs body h) = h @ Execute ?q # take 0 []"
      using assms False by (simp add: create_def perform_create_def)
    then show ?thesis by (metis take_Nil take_0)
  next
    case (Inr pk)
    show ?thesis
    proof (cases "truthy pk")
      case False
      then have "snd (create e vs body h) = h @ Execute ?q # []"
        using assms \<open>data \<noteq> []\<close> Inr by (simp add: create_def perform_create_def)
      then show ?thesis by (metis take_0)
    next
      case True
      from create_related_history[of e pk related "h @ [Execute ?q]"] obtain k where
        k: "snd (create_related e pk related (h @ [Execute ?q]))
             = (h @ [Execute ?q]) @ take k (map (set_related_op pk) (filter (\<lambda>p. snd p \<noteq> {}) related))"
        by blast
      have "snd (create e vs body h) = snd (create_related e pk related (h @ [Execute ?q]))"
        using assms \<open>data \<noteq> []\<close> Inr True
        by (simp add: create_def perform_create_def split: prod.splits option.splits)
      with k Inr show ?thesis by auto
    qed
  qed
  with False show ?thesis by simp
qed

text \<open>
  C7: when the body of a create request decodes to an empty column assignment,
  \<^verbatim>\<open>create\<close> raises \<^verbatim>\<open>Unprocessable\<close> and the history of storage operations
  is as before: no insert and no relation write is issued, and no re-fetch follows. In
  particular this is so when nothing is left of the payload once the read-only fields
  and the primary key are excluded. With any column assignment at all the insert is
  issued, so the guard is what keeps the store untouched.
\<close>

theorem create_empty_data_unprocessable:
  "(serialize_request_body_for_db e vs body True = Inr ([], related)
      \<longrightarrow> create e vs body h = (Inl (Unprocessable ''Empty request body''), h)
          \<and> perform_api_action_create e vs body h
              = (Inl (Unprocessable ''Empty request body''), h))
   \<and> (body_dict body (read_only_fields (schema vs) \<union> {name (pk_field vs)}) False = []
      \<longrightarrow> create e vs body h = (Inl (Unprocessable ''Empty request body''), h))
   \<and> (serialize_request_body_for_db e vs body True = Inr (data, related) \<and> data \<noteq> []
      \<longrightarrow> (\<exists>rest. snd (create e vs body h)
                     = h @ Execute (new_query (model_name (model vs)) (Insert data)) # rest))"
proof -
  have 1: "create e vs body h = (Inl (Unprocessable ''Empty request body''), h)
          \<and> perform_api_action_create e vs body h
              = (Inl (Unprocessable ''Empty request body''), h)"
    if "serialize_request_body_for_db e vs body True = Inr ([], related)"
    using that by (simp add: create_def perform_api_action_create_def)
  have 2: "create e vs body h = (Inl (Unprocessable ''Empty request body''), h)"
    if b: "body_dict body (read_only_fields (schema vs) \<union> {name (pk_field vs)}) False = []"
  proof -
    from b have "serialize_request_body_for_db e vs body True = Inr ([], [])"
      by (simp add: serialize_request_body_for_db_def)
    then show ?thesis by (simp add: create_def)
  qed
  have 3: "\<exists>rest. snd (create e vs body h)
                     = h @ Execute (new_query (model_name (model vs)) (Insert data)) # rest"
    if "serialize_request_body_for_db e vs body True = Inr (data, related)" "data \<noteq> []"
    using create_history[OF that(1), of h] that(2) by auto
  from 1 2 3 show ?thesis by blast
qed

theorem create_empty_data_unprocessable_witness:
  "serialize_request_body_for_db accepting_env item_viewset relations_only_body True
     = Inr ([], [(tags_field, {PyInt 1, PyInt 2})])
   \<and> create accepting_env item_viewset relations_only_body []
     = (Inl (Unprocessable ''Empty request body''), [])
   \<and> perform_api_action_create accepting_env item_viewset relations_only_body []
     = (Inl (Unprocessable ''Empty request body''), [])
   \<and> body_dict id_only_body
        (read_only_fields (schema item_viewset) \<union> {name (pk_field item_viewset)}) False = []
   \<and> create accepting_env item_viewset id_only_body []
     = (Inl (Unprocessable ''Empty request body''), [])
   \<and> (\<exists>rest. snd (create accepting_env item_viewset sample_body [])
          = [] @ Execute (new_query (model_name (model item_viewset))
                            (Insert [(''name'', PyStr ''x'')])) # rest)"
proof -
  have h: "serialize_request_body_for_db accepting_env item_viewset relations_only_body True
     = Inr ([], [(tags_field, {PyInt 1, PyInt 2})])"
    by (simp add: eval_defs relations_only_body_def insert_commute)
  have b: "body_dict id_only_body
        (read_only_fields (schema item_viewset) \<union> {name (pk_field item_viewset)}) False = []"
    by (simp add: eval_defs id_only_body_def)
  from create_empty_data_unprocessable
         [of accepting_env item_viewset relations_only_body "[(tags_field, {PyInt 1, PyInt 2})]" "[]"] h
  have c: "create accepting_env item_viewset relations_only_body []
     = (Inl (Unprocessable ''Empty request body''), [])
   \<and> perform_api_action_create accepting_env item_viewset relations_only_body []
     = (Inl (Unprocessable ''Empty request body''), [])"
    by blast
  from create_empty_data_unprocessable[of accepting_env item_viewset id_only_body _ "[]"] b
  have c': "create accepting_env item_viewset id_only_body []
     = (Inl (Unprocessable ''Empty request body''), [])"
    by blast
  have s: "serialize_request_body_for_db accepting_env item_viewset sample_body True
     = Inr ([(''name'', PyStr ''x'')], [(tags_field, {})])"
    by (simp add: eval_defs sample_body_def)
  have ne: "[(''name'', PyStr ''x'')] \<noteq> []" by simp
  from create_empty_data_unprocessable
         [of accepting_env item_viewset sample_body "[(tags_field, {})]" "[]"
             "[(''name'', PyStr ''x'')]"] s ne
  have i: "\<exists>rest. snd (create accepting_env item_viewset sample_body [])
          = [] @ Execute (new_query (model_name (model item_viewset))
                            (Insert [(''name'', PyStr ''x'')])) # rest"
    by blast
  from h c b c' i show ?thesis by blast
qed






subsection \<open>Update\<close>

lemma apply_query_filters_None: "apply_query_filters vs q None = q"
  by (simp add: apply_query_filters_def get_query_filters_def)

lemma get_object_or_404_history:
  assumes "lookup_expr vs pk = Inr expr"
  shows "\<exists>rest. snd (get_object_or_404 e vs pk (Some fs) h)
           = h @ Get (where_clause (get_base_query vs fs) [expr]) # rest"
  using assms
  by (auto simp: get_object_or_404_def apply_query_filters_None fields_or_empty_def Let_def
           split: sum.splits db_exception.splits)

text \<open>
  C10: when the body of an update request decodes to an empty column assignment,
  \<^verbatim>\<open>update\<close> issues no query, only relation writes; it returns the primary key it
  was given unless a relation write raised, and then the error is that exception as
  \<^verbatim>\<open>db_errors_handler\<close> passes it on; when it returns, every decoded pair has been
  written; when the store accepts the writes it does return, and
  \<^verbatim>\<open>perform_api_action\<close> goes on to fetch the entity with the full response
  fields, which issues the \<^verbatim>\<open>Get\<close> of the base query for those fields.
\<close>

theorem update_empty_data_writes_relations_only:
  "serialize_request_body_for_db e vs body False = Inr ([], related) \<longrightarrow>
     (\<exists>ops. snd (update e vs pk body h) = h @ ops \<and> (\<forall>op \<in> set ops. \<not> is_execute op))
     \<and> (fst (update e vs pk body h) = Inr pk
         \<or> (\<exists>exn. fst (update e vs pk body h) = Inl (db_errors_handler e exn)
                  \<and> (\<exists>p \<in> set related. \<exists>h0. set_related e h0 pk (fst p) (snd p) = Inl exn)))
     \<and> (fst (update e vs pk body h) = Inr pk
         \<longrightarrow> snd (update e vs pk body h) = h @ map (set_related_op pk) related)
     \<and> ((\<forall>p \<in> set related. \<forall>h0. set_related e h0 pk (fst p) (snd p) = Inr ())
         \<longrightarrow> update e vs pk body h = (Inr pk, h @ map (set_related_op pk) related)
             \<and> perform_api_action_update e vs pk body h
                 = get_object_or_404 e vs pk (Some (response_fields_full_config vs))
                     (h @ map (set_related_op pk) related))
     \<and> (\<forall>expr h0. lookup_expr vs pk = Inr expr
         \<longrightarrow> (\<exists>rest. snd (get_object_or_404 e vs pk (Some (response_fields_full_config vs)) h0)
                  = h0 @ Get (where_clause
                               (get_base_query vs (response_fields_full_config vs)) [expr])
                         # rest))"
proof
  assume s: "serialize_request_body_for_db e vs body False = Inr ([], related)"
  have u: "update e vs pk body h = update_tail e pk related h"
    using s by (simp add: update_def)
  obtain r h' where rel: "update_related e pk related h = (r, h')"
    by (cases "update_related e pk related h")
  have 1: "\<exists>ops. snd (update e vs pk body h) = h @ ops \<and> (\<forall>op \<in> set ops. \<not> is_execute op)"
  proof -
    from update_related_history[of e pk related h] obtain k where
      k: "snd (update_related e pk related h) = h @ take k (map (set_related_op pk) related)"
      by blast
    have "snd (update e vs pk body h) = snd (update_related e pk related h)"
      unfolding u by (simp add: update_tail_def split: prod.splits option.splits)
    with k have "snd (update e vs pk body h) = h @ take k (map (set_related_op pk) related)"
      by simp
    moreover have "\<forall>op \<in> set (take k (map (set_related_op pk) related)). \<not> is_execute op"
      using set_related_op_not_execute by (auto dest!: in_set_takeD)
    ultimately show ?thesis by blast
  qed
  have 2: "fst (update e vs pk body h) = Inr pk
         \<or> (\<exists>exn. fst (update e vs pk body h) = Inl (db_errors_handler e exn)
                  \<and> (\<exists>p \<in> set related. \<exists>h0. set_related e h0 pk (fst p) (snd p) = Inl exn))"
  proof (cases r)
    case None
    then show ?thesis unfolding u using rel by (simp add: update_tail_def)
  next
    case (Some exn)
    with rel have "update_related e pk related h = (Some exn, h')" by simp
    from update_related_Some[OF this] Some rel show ?thesis
      unfolding u by (auto simp: update_tail_def)
  qed
  have 3: "snd (update e vs pk body h) = h @ map (set_related_op pk) related"
    if "fst (update e vs pk body h) = Inr pk"
  proof -
    from that rel have "r = None" unfolding u
      by (cases r) (auto simp: update_tail_def)
    with rel update_related_None have "h' = h @ map (set_related_op pk) related" by blast
    then show ?thesis unfolding u using rel \<open>r = None\<close> by (simp add: update_tail_def)
  qed
  have 4: "update e vs pk body h = (Inr pk, h @ map (set_related_op pk) related)
             \<and> perform_api_action_update e vs pk body h
                 = get_object_or_404 e vs pk (Some (response_fields_full_config vs))
                     (h @ map (set_related_op pk) related)"
    if ok: "\<forall>p \<in> set related. \<forall>h0. set_related e h0 pk (fst p) (snd p) = Inr ()"
  proof -
    from update_related_all_ok[OF ok, of h]
    have "update e vs pk body h = (Inr pk, h @ map (set_related_op pk) related)"
      unfolding u by (simp add: update_tail_def)
    then show ?thesis by (simp add: perform_api_action_update_def)
  qed
  have 5: "\<forall>expr h0. lookup_expr vs pk = Inr expr
         \<longrightarrow> (\<exists>rest. snd (get_object_or_404 e vs pk (Some (response_fields_full_config vs)) h0)
                  = h0 @ Get (where_clause
                               (get_base_query vs (response_fields_full_config vs)) [expr])
                         # rest)"
    using get_object_or_404_history by blast
  from 1 2 3 4 5
  show "(\<exists>ops. snd (update e vs pk body h) = h @ ops \<and> (\<forall>op \<in> set ops. \<not> is_execute op))
     \<and> (fst (update e vs pk body h) = Inr pk
         \<or> (\<exists>exn. fst (update e vs pk body h) = Inl (db_errors_handler e exn)
                  \<and> (\<exists>p \<in> set related. \<exists>h0. set_related e h0 pk (fst p) (snd p) = Inl exn)))
     \<and> (fst (update e vs pk body h) = Inr pk
         \<longrightarrow> snd (update e vs pk body h) = h @ map (set_related_op pk) related)
     \<and> ((\<forall>p \<in> set related. \<forall>h0. set_related e h0 pk (fst p) (snd p) = Inr ())
         \<longrightarrow> update e vs pk body h = (Inr pk, h @ map (set_related_op pk) related)
             \<and> perform_api_action_update e vs pk body h
                 = get_object_or_404 e vs pk (Some (response_fields_full_config vs))
                     (h @ map (set_related_op pk) related))
     \<and> (\<forall>expr h0. lookup_expr vs pk = Inr expr
         \<longrightarrow> (\<exists>rest. snd (get_object_or_404 e vs pk (Some (response_fields_full_config vs)) h0)
                  = h0 @ Get (where_clause
                               (get_base_query vs (response_fields_full_config vs)) [expr])
                         # rest))"
    by blast
qed

theorem update_empty_data_writes_relations_only_witness:
  "serialize_request_body_for_db accepting_env item_viewset clear_tags_body False
     = Inr ([], [(tags_field, {})])
   \<and> update accepting_env item_viewset (PyInt 7) clear_tags_body []
     = (Inr (PyInt 7), [] @ map (set_related_op (PyInt 7)) [(tags_field, {})])
   \<and> (\<exists>rest. snd (get_object_or_404 accepting_env item_viewset (PyInt 7)
                      (Some (response_fields_full_config item_viewset)) [SetRelated (PyInt 7) tags_field {}])
          = [SetRelated (PyInt 7) tags_field {}]
            @ Get (where_clause
                     (get_base_query item_viewset (response_fields_full_config item_viewset))
                     [FieldEq id_field (PyInt 7)])
              # rest)"
proof -
  have s: "serialize_request_body_for_db accepting_env item_viewset clear_tags_body False
     = Inr ([], [(tags_field, {})])"
    by (simp add: eval_defs clear_tags_body_def)
  have ok: "\<forall>p \<in> set [(tags_field, {})]. \<forall>h0.
              set_related accepting_env h0 (PyInt 7) (fst p) (snd p) = Inr ()"
    by (simp add: accepting_env_def)
  from update_empty_data_writes_relations_only
         [of accepting_env item_viewset clear_tags_body "[(tags_field, {})]" "PyInt 7" "[]"] s ok
  have c: "update accepting_env item_viewset (PyInt 7) clear_tags_body []
     = (Inr (PyInt 7), [] @ map (set_related_op (PyInt 7)) [(tags_field, {})])"
    by blast
  have l: "lookup_expr item_viewset (PyInt 7) = Inr (FieldEq id_field (PyInt 7))"
    by (simp add: lookup_expr_def item_viewset_def)
  from update_empty_data_writes_relations_only
         [of accepting_env item_viewset clear_tags_body "[(tags_field, {})]" "PyInt 7" "[]"] s l
  have g: "\<exists>rest. snd (get_object_or_404 accepting_env item_viewset (PyInt 7)
                      (Some (response_fields_full_config item_viewset)) [SetRelated (PyInt 7) tags_field {}])
          = [SetRelated (PyInt 7) tags_field {}]
            @ Get (where_clause
                     (get_base_query item_viewset (response_fields_full_config item_viewset))
                     [FieldEq id_field (PyInt 7)])
              # rest"
    by blast
  from s c g show ?thesis by blast
qed

end
